theory Spec2Isabelle
  imports Main "HOL-Library.List_Lexorder" "HOL-Library.Char_ord"
begin

section \<open>Values and string operations of the host language\<close>

text \<open>
  Decoded JSON (and YAML) documents as the script sees them: Python's \<open>None\<close>, booleans,
  numbers, strings, lists and dicts. A dict is kept as an association list in insertion
  order, with strings as keys; lookups take the first binding of a key, and the decoders
  are taken to deliver dicts without repeated keys. Numbers are integers: the script
  never computes with a number it reads, it only tests whether one is zero.
\<close>

datatype json =
    JNull
  | JBool bool
  | JNum int
  | JStr string
  | JArr "json list"
  | JObj "(string \<times> json) list"

text \<open>The exceptions the script can meet. All of them are subclasses of \<open>Exception\<close>.\<close>

datatype exn =
    FileNotFoundError
  | PermissionError
  | JSONDecodeError
  | KeyError
  | TypeError
  | AttributeError
  | IndexError

text \<open>Truth value of an object in a condition (\<open>if x:\<close>, \<open>x or y\<close>).\<close>

fun truthy :: "json \<Rightarrow> bool" where
  "truthy JNull = False"
| "truthy (JBool b) = b"
| "truthy (JNum n) = (n \<noteq> 0)"
| "truthy (JStr s) = (s \<noteq> [])"
| "truthy (JArr xs) = (xs \<noteq> [])"
| "truthy (JObj kvs) = (kvs \<noteq> [])"

text \<open>\<open>d.get(key, default)\<close>: only a dict has the method.\<close>

definition dict_get :: "(string \<times> json) list \<Rightarrow> string \<Rightarrow> json \<Rightarrow> json" where
  "dict_get kvs k d = (case map_of kvs k of Some v \<Rightarrow> v | None \<Rightarrow> d)"

fun py_get :: "json \<Rightarrow> string \<Rightarrow> json \<Rightarrow> exn + json" where
  "py_get (JObj kvs) k d = Inr (dict_get kvs k d)"
| "py_get _ k d = Inl AttributeError"

text \<open>\<open>d[key]\<close> with a string key: a missing key of a dict raises \<open>KeyError\<close>, a string
  or list does not take a string index, the other values are not subscriptable.\<close>

fun py_subscript :: "json \<Rightarrow> string \<Rightarrow> exn + json" where
  "py_subscript (JObj kvs) k = (case map_of kvs k of Some v \<Rightarrow> Inr v | None \<Rightarrow> Inl KeyError)"
| "py_subscript _ k = Inl TypeError"

text \<open>\<open>for x in v\<close>: a list gives its elements, a dict its keys, a string its characters;
  nothing else is iterable.\<close>

fun py_iter :: "json \<Rightarrow> exn + json list" where
  "py_iter (JArr xs) = Inr xs"
| "py_iter (JObj kvs) = Inr (map (\<lambda>kv. JStr (fst kv)) kvs)"
| "py_iter (JStr s) = Inr (map (\<lambda>c. JStr [c]) s)"
| "py_iter _ = Inl TypeError"

text \<open>Whitespace as \<open>str.strip()\<close> sees it, on the ASCII range: space, tab, line feed,
  vertical tab, form feed, carriage return and the four separators 0x1C to 0x1F.\<close>

definition is_space :: "char \<Rightarrow> bool" where
  "is_space c = (c = CHR '' '' \<or> (9 \<le> (of_char c :: nat) \<and> (of_char c :: nat) \<le> 13)
      \<or> (28 \<le> (of_char c :: nat) \<and> (of_char c :: nat) \<le> 31))"

definition lstrip_by :: "(char \<Rightarrow> bool) \<Rightarrow> string \<Rightarrow> string" where
  "lstrip_by p s = dropWhile p s"

definition rstrip_by :: "(char \<Rightarrow> bool) \<Rightarrow> string \<Rightarrow> string" where
  "rstrip_by p s = rev (dropWhile p (rev s))"

definition strip_by :: "(char \<Rightarrow> bool) \<Rightarrow> string \<Rightarrow> string" where
  "strip_by p s = rstrip_by p (lstrip_by p s)"

definition strip :: "string \<Rightarrow> string" where
  "strip s = strip_by is_space s"

definition strip_chars :: "string \<Rightarrow> string \<Rightarrow> string" where
  "strip_chars cs s = strip_by (\<lambda>c. c \<in> set cs) s"

definition rstrip_chars :: "string \<Rightarrow> string \<Rightarrow> string" where
  "rstrip_chars cs s = rstrip_by (\<lambda>c. c \<in> set cs) s"

definition endswith :: "string \<Rightarrow> string \<Rightarrow> bool" where
  "endswith s t = (length t \<le> length s \<and> drop (length s - length t) s = t)"

text \<open>\<open>s.split(c)\<close> for a one-character separator: always at least one piece.\<close>

fun split_char :: "char \<Rightarrow> string \<Rightarrow> string list" where
  "split_char c [] = [[]]"
| "split_char c (x # xs) =
     (if x = c then [] # split_char c xs
      else (case split_char c xs of p # ps \<Rightarrow> (x # p) # ps | [] \<Rightarrow> [[x]]))"

text \<open>\<open>s.split(sep)\<close> for a separator of any positive length, scanning left to right.\<close>

fun split_str :: "string \<Rightarrow> string \<Rightarrow> string \<Rightarrow> string list" where
  "split_str sep acc [] = [rev acc]"
| "split_str sep acc (x # xs) =
     (if sep \<noteq> [] \<and> take (length sep) (x # xs) = sep
      then rev acc # split_str sep [] (drop (length sep) (x # xs))
      else split_str sep (x # acc) xs)"

text \<open>\<open>sub in s\<close> for strings.\<close>

fun contains_str :: "string \<Rightarrow> string \<Rightarrow> bool" where
  "contains_str sub [] = (sub = [])"
| "contains_str sub (x # xs) = (take (length sub) (x # xs) = sub \<or> contains_str sub xs)"

text \<open>\<open>sep.join(xs)\<close>.\<close>

fun join :: "string \<Rightarrow> string list \<Rightarrow> string" where
  "join sep [] = []"
| "join sep [x] = x"
| "join sep (x # y # ys) = x @ sep @ join sep (y # ys)"

text \<open>Decimal rendering of the integers the script prints or puts into a URL.\<close>

definition digit_char :: "nat \<Rightarrow> char" where
  "digit_char d = ''0123456789'' ! d"

fun str_nat :: "nat \<Rightarrow> string" where
  "str_nat n = (if n < 10 then [digit_char n] else str_nat (n div 10) @ [digit_char (n mod 10)])"

definition str_int :: "int \<Rightarrow> string" where
  "str_int i = (if i < 0 then CHR ''-'' # str_nat (nat (- i)) else str_nat (nat i))"


text \<open>Exceptions as values: the left summand is the exception raised.\<close>

definition ebind :: "exn + 'a \<Rightarrow> ('a \<Rightarrow> exn + 'b) \<Rightarrow> exn + 'b" where
  "ebind m f = (case m of Inl e \<Rightarrow> Inl e | Inr a \<Rightarrow> f a)"

fun emap :: "('a \<Rightarrow> exn + 'b) \<Rightarrow> 'a list \<Rightarrow> exn + 'b list" where
  "emap f [] = Inr []"
| "emap f (x # xs) =
     (case f x of Inl e \<Rightarrow> Inl e
      | Inr y \<Rightarrow> (case emap f xs of Inl e \<Rightarrow> Inl e | Inr ys \<Rightarrow> Inr (y # ys)))"

section \<open>The world the script runs in\<close>

text \<open>
  An HTTP request as the script issues it through \<open>requests\<close>, and the part of a response
  the script reads: the status, the body text, the decoded body (\<open>None\<close> when \<open>r.json()\<close>
  raises) and the parsed \<open>Link\<close> header.
\<close>

datatype http_method = GET | POST

record request =
  meth :: http_method
  url :: string
  headers :: "(string \<times> string) list"
  params :: "(string \<times> string) list option"
  json_payload :: "json option"

record response =
  status_code :: int
  body_text :: string
  json_body :: "json option"
  links :: "(string \<times> (string \<times> string) list) list"

text \<open>What the script does to the outside, in order: requests, calls of
  \<open>subprocess.run\<close> (recorded with the command, also when the call raises) and pauses
  (\<open>sleep(0.5)\<close>).\<close>

datatype event = Http request | Subprocess "string list" | Sleep

text \<open>
  The environment: the remote servers and the scanner answer depending on everything that
  happened so far; \<open>subprocess.run\<close> either raises (the exception and its text) or gives
  the standard output and standard error of the finished process. The library functions
  the script calls and whose code is not part of it are parameters too.
\<close>

record env =
  http :: "event list \<Rightarrow> request \<Rightarrow> response"
  subprocess_run :: "event list \<Rightarrow> string list \<Rightarrow> (exn \<times> string) + (string \<times> string)"
  yaml_safe_load :: "string \<Rightarrow> string + json"
  json_loads :: "string \<Rightarrow> json option"
  urlparse_path :: "string \<Rightarrow> string"
  py_str :: "json \<Rightarrow> string"

text \<open>
  The state: text files of the working directory, the spreadsheets written (kept apart:
  the script never reads one back), the lines printed, and the events so far.
\<close>

type_synonym row = "(string \<times> json) list"

record state =
  fs :: "string \<rightharpoonup> string"
  sheets :: "string \<rightharpoonup> row list"
  out :: "string list"
  trace :: "event list"

text \<open>How a call ends: it returns, the process exits (\<open>sys.exit\<close>), or an exception
  leaves the function.\<close>

datatype 'a outcome = Return 'a | Exit int | Raise exn

text \<open>\<open>f"{v}"\<close> of a decoded value: a string is inserted as it is; how Python's \<open>str\<close>
  prints the other values is left to the parameter \<open>py_str\<close> of the environment.\<close>

definition fmt :: "env \<Rightarrow> json \<Rightarrow> string" where
  "fmt env v = (case v of JStr s \<Rightarrow> s | _ \<Rightarrow> py_str env v)"

definition print :: "string \<Rightarrow> state \<Rightarrow> state" where
  "print s st = st\<lparr>out := out st @ [s]\<rparr>"

definition write_file :: "string \<Rightarrow> string \<Rightarrow> state \<Rightarrow> state" where
  "write_file path s st = st\<lparr>fs := (fs st)(path \<mapsto> s)\<rparr>"

definition to_excel :: "string \<Rightarrow> row list \<Rightarrow> state \<Rightarrow> state" where
  "to_excel path rows st = st\<lparr>sheets := (sheets st)(path \<mapsto> rows)\<rparr>"

definition log_event :: "event \<Rightarrow> state \<Rightarrow> state" where
  "log_event e st = st\<lparr>trace := trace st @ [e]\<rparr>"

text \<open>Reading a text file line by line, as \<open>for line in f\<close> does with universal
  newlines: a carriage return ends a line as a line feed does.\<close>

fun universal_newlines :: "string \<Rightarrow> string" where
  "universal_newlines [] = []"
| "universal_newlines [c] = (if c = CHR 0x0D then [CHR 0x0A] else [c])"
| "universal_newlines (c # d # ds) =
     (if c = CHR 0x0D \<and> d = CHR 0x0A then CHR 0x0A # universal_newlines ds
      else if c = CHR 0x0D then CHR 0x0A # universal_newlines (d # ds)
      else c # universal_newlines (d # ds))"

definition stripped_lines :: "string \<Rightarrow> string list" where
  "stripped_lines s = filter (\<lambda>l. l \<noteq> []) (map strip (split_char (CHR 0x0A) (universal_newlines s)))"

definition read_lines :: "state \<Rightarrow> string \<Rightarrow> exn + string list" where
  "read_lines st path =
     (case fs st path of None \<Rightarrow> Inl FileNotFoundError | Some s \<Rightarrow> Inr (stripped_lines s))"

definition get_request :: "string \<Rightarrow> (string \<times> string) list \<Rightarrow> (string \<times> string) list option \<Rightarrow> request" where
  "get_request u hdrs ps = \<lparr>meth = GET, url = u, headers = hdrs, params = ps, json_payload = None\<rparr>"

definition post_request :: "string \<Rightarrow> (string \<times> string) list \<Rightarrow> json \<Rightarrow> request" where
  "post_request u hdrs payload =
     \<lparr>meth = POST, url = u, headers = hdrs, params = None, json_payload = Some payload\<rparr>"

text \<open>\<open>requests.get\<close> and \<open>requests.post\<close> are taken to deliver a response: the remote
  side answers, and the event is recorded.\<close>

definition requests_get ::
  "env \<Rightarrow> string \<Rightarrow> (string \<times> string) list \<Rightarrow> (string \<times> string) list option \<Rightarrow> state
     \<Rightarrow> response \<times> state" where
  "requests_get env u hdrs ps st =
     (http env (trace st) (get_request u hdrs ps), log_event (Http (get_request u hdrs ps)) st)"

definition requests_post ::
  "env \<Rightarrow> string \<Rightarrow> (string \<times> string) list \<Rightarrow> json \<Rightarrow> state \<Rightarrow> response \<times> state" where
  "requests_post env u hdrs payload st =
     (http env (trace st) (post_request u hdrs payload), log_event (Http (post_request u hdrs payload)) st)"

text \<open>\<open>r.links.get('next', {}).get('url')\<close>\<close>

definition next_link :: "response \<Rightarrow> string option" where
  "next_link r = (case map_of (links r) ''next'' of None \<Rightarrow> None | Some d \<Rightarrow> map_of d ''url'')"


section \<open>Utility functions\<close>

text \<open>The operations \<open>read_credentials\<close> applies to the loaded document:
  \<open>key in conf\<close>, \<open>v[0]\<close> and \<open>v.strip()\<close>.\<close>

fun py_in :: "string \<Rightarrow> json \<Rightarrow> exn + bool" where
  "py_in k (JObj kvs) = Inr (k \<in> fst ` set kvs)"
| "py_in k (JArr xs) = Inr (JStr k \<in> set xs)"
| "py_in k (JStr s) = Inr (contains_str k s)"
| "py_in k _ = Inl TypeError"

fun py_index0 :: "json \<Rightarrow> exn + json" where
  "py_index0 (JArr xs) = (case xs of [] \<Rightarrow> Inl IndexError | x # _ \<Rightarrow> Inr x)"
| "py_index0 (JStr s) = (case s of [] \<Rightarrow> Inl IndexError | c # _ \<Rightarrow> Inr (JStr [c]))"
| "py_index0 (JObj kvs) = Inl KeyError"
| "py_index0 _ = Inl TypeError"

fun py_strip :: "json \<Rightarrow> exn + string" where
  "py_strip (JStr s) = Inr (strip s)"
| "py_strip _ = Inl AttributeError"

text \<open>\<open>if key in conf and conf[key]: ... conf[key][0].strip()\<close>: the stripped first
  value under the key, or nothing when the key is absent or its value is false.\<close>

definition conf_first :: "json \<Rightarrow> string \<Rightarrow> exn + string option" where
  "conf_first conf k =
     ebind (py_in k conf) (\<lambda>present.
       if \<not> present then Inr None
       else ebind (py_subscript conf k) (\<lambda>v.
         if \<not> truthy v then Inr None
         else ebind (py_index0 v) (\<lambda>x. ebind (py_strip x) (\<lambda>s. Inr (Some s)))))"

text \<open>\<open>line.split(":", 1)\<close> of a line that contains a colon.\<close>

definition split_colon :: "string \<Rightarrow> string \<times> string" where
  "split_colon line = (takeWhile (\<lambda>c. c \<noteq> CHR '':'') line, drop 1 (dropWhile (\<lambda>c. c \<noteq> CHR '':'') line))"

definition read_credentials ::
  "env \<Rightarrow> state \<Rightarrow> (string option \<times> string option \<times> string option) outcome \<times> state" where
  "read_credentials env st =
     (case fs st ''cred.conf'' of
        None \<Rightarrow> (Exit 1, print ''Error: cred.conf file not found.'' st)
      | Some f \<Rightarrow>
          (case yaml_safe_load env f of
             Inl e \<Rightarrow> (Exit 1, print (''Error parsing cred.conf: '' @ e) st)
           | Inr conf \<Rightarrow>
               (case conf_first conf ''github'' of
                  Inl e \<Rightarrow> (Raise e, st)
                | Inr github_token \<Rightarrow>
                    (case conf_first conf ''docker'' of
                       Inl e \<Rightarrow> (Raise e, st)
                     | Inr None \<Rightarrow> (Return (github_token, None, None), st)
                     | Inr (Some line) \<Rightarrow>
                         if CHR '':'' \<notin> set line
                         then (Exit 1, print ''Error: Docker credentials must be in format username:password'' st)
                         else (Return (github_token, Some (fst (split_colon line)), Some (snd (split_colon line))), st)))))"

definition run_trufflehog :: "env \<Rightarrow> string list \<Rightarrow> state \<Rightarrow> string outcome \<times> state" where
  "run_trufflehog env cmd st =
     (case subprocess_run env (trace st) cmd of
        Inr (stdout, stderr) \<Rightarrow> (Return (stdout @ stderr), log_event (Subprocess cmd) st)
      | Inl (e, msg) \<Rightarrow>
          if e = FileNotFoundError
          then (Exit 1, print ''Error: trufflehog not found. Install it with: pip install trufflehog''
                  (log_event (Subprocess cmd) st))
          else (Raise e, log_event (Subprocess cmd) st))"

section \<open>GitHub functions\<close>

text \<open>\<open>[f"https://github.com/{repo['full_name']}" for repo in data]\<close>\<close>

definition repo_urls :: "env \<Rightarrow> json \<Rightarrow> exn + string list" where
  "repo_urls env data =
     ebind (py_iter data)
       (emap (\<lambda>repo. ebind (py_subscript repo ''full_name'') (\<lambda>n. Inr (''https://github.com/'' @ fmt env n))))"

text \<open>\<open>[org['login'] for org in data]\<close>\<close>

definition org_logins :: "json \<Rightarrow> exn + json list" where
  "org_logins data = ebind (py_iter data) (emap (\<lambda>org. py_subscript org ''login''))"

text \<open>
  The pagination loops. Each is the \<open>while url:\<close> loop of its function, with the loop
  variables as arguments; \<open>url\<close> is \<open>None\<close> or a string, and the loop runs while it is a
  non-empty string. A server that always names a next page keeps the loop running for
  ever: the loops are partial, and \<open>None\<close> is the run that does not return.
\<close>

partial_function (option) get_user_repos_loop ::
  "env \<Rightarrow> (string \<times> string) list \<Rightarrow> string option \<Rightarrow> (string \<times> string) list option
     \<Rightarrow> string list \<Rightarrow> state \<Rightarrow> (string list outcome \<times> state) option" where
  "get_user_repos_loop env hdrs url_opt ps repos st =
     (case url_opt of
        None \<Rightarrow> Some (Return repos, st)
      | Some u \<Rightarrow>
          if u = [] then Some (Return repos, st)
          else (case requests_get env u hdrs ps st of
                  (r, st1) \<Rightarrow>
                    if status_code r \<noteq> 200 then Some (Return repos, st1)
                    else (case json_body r of
                            None \<Rightarrow> Some (Raise JSONDecodeError, st1)
                          | Some data \<Rightarrow>
                              (case repo_urls env data of
                                 Inl e \<Rightarrow> Some (Raise e, st1)
                               | Inr new \<Rightarrow>
                                   get_user_repos_loop env hdrs (next_link r) None (repos @ new) st1))))"

definition get_user_repos :: "env \<Rightarrow> string \<Rightarrow> state \<Rightarrow> (string list outcome \<times> state) option" where
  "get_user_repos env token st =
     get_user_repos_loop env [(''Authorization'', ''token '' @ token)]
       (Some ''https://api.github.com/user/repos'')
       (Some [(''per_page'', ''100''), (''type'', ''owner'')]) [] st"

partial_function (option) get_orgs_loop ::
  "env \<Rightarrow> (string \<times> string) list \<Rightarrow> string option \<Rightarrow> json list \<Rightarrow> state
     \<Rightarrow> (json list outcome \<times> state) option" where
  "get_orgs_loop env hdrs url_opt orgs st =
     (case url_opt of
        None \<Rightarrow> Some (Return orgs, st)
      | Some u \<Rightarrow>
          if u = [] then Some (Return orgs, st)
          else (case requests_get env u hdrs None st of
                  (r, st1) \<Rightarrow>
                    if status_code r \<noteq> 200 then Some (Return orgs, st1)
                    else (case json_body r of
                            None \<Rightarrow> Some (Raise JSONDecodeError, st1)
                          | Some data \<Rightarrow>
                              (case org_logins data of
                                 Inl e \<Rightarrow> Some (Raise e, st1)
                               | Inr new \<Rightarrow> get_orgs_loop env hdrs (next_link r) (orgs @ new) st1))))"

definition get_orgs :: "env \<Rightarrow> string \<Rightarrow> state \<Rightarrow> (json list outcome \<times> state) option" where
  "get_orgs env token st =
     get_orgs_loop env [(''Authorization'', ''token '' @ token)]
       (Some ''https://api.github.com/user/orgs'') [] st"

partial_function (option) get_profile_repos_loop ::
  "env \<Rightarrow> string \<Rightarrow> (string \<times> string) list \<Rightarrow> string option \<Rightarrow> (string \<times> string) list option
     \<Rightarrow> string list \<Rightarrow> state \<Rightarrow> (string list outcome \<times> state) option" where
  "get_profile_repos_loop env username hdrs url_opt ps repos st =
     (case url_opt of
        None \<Rightarrow> Some (Return repos, st)
      | Some u \<Rightarrow>
          if u = [] then Some (Return repos, st)
          else (case requests_get env u hdrs ps st of
                  (r, st1) \<Rightarrow>
                    if status_code r \<noteq> 200
                    then Some (Return repos,
                           print (''Failed to fetch repos for '' @ username @ '': '' @ str_int (status_code r)) st1)
                    else (case json_body r of
                            None \<Rightarrow> Some (Raise JSONDecodeError, st1)
                          | Some data \<Rightarrow>
                              (case repo_urls env data of
                                 Inl e \<Rightarrow> Some (Raise e, st1)
                               | Inr new \<Rightarrow>
                                   get_profile_repos_loop env username hdrs (next_link r) None (repos @ new) st1))))"

text \<open>\<open>headers = {}\<close>, and the authorization header \<open>if token:\<close>.\<close>

definition profile_headers :: "string option \<Rightarrow> (string \<times> string) list" where
  "profile_headers token =
     (case token of
        None \<Rightarrow> []
      | Some t \<Rightarrow> if t = [] then [] else [(''Authorization'', ''token '' @ t)])"

definition get_profile_repos ::
  "env \<Rightarrow> string \<Rightarrow> string option \<Rightarrow> state \<Rightarrow> (string list outcome \<times> state) option" where
  "get_profile_repos env profile_url token st =
     (let username = strip_chars ''/'' (urlparse_path env profile_url)
      in if username = [] then Some (Return [], print (''Invalid profile URL: '' @ profile_url) st)
         else get_profile_repos_loop env username (profile_headers token)
                (Some (''https://api.github.com/users/'' @ username @ ''/repos''))
                (Some [(''per_page'', ''100'')]) [] st)"


text \<open>Sequencing of calls that may not return: the next call runs only after a return.\<close>

definition obind ::
  "('a outcome \<times> state) option \<Rightarrow> ('a \<Rightarrow> state \<Rightarrow> ('b outcome \<times> state) option)
     \<Rightarrow> ('b outcome \<times> state) option" where
  "obind m f =
     (case m of
        None \<Rightarrow> None
      | Some (Return a, st) \<Rightarrow> f a st
      | Some (Exit c, st) \<Rightarrow> Some (Exit c, st)
      | Some (Raise e, st) \<Rightarrow> Some (Raise e, st))"

text \<open>
  The scanning loops of the GitHub modes, \<open>for x in xs: print(...); cmd = [...];
  all_output.append(run_trufflehog(cmd))\<close>: the list holds, for each target, the line
  printed and the command.
\<close>

fun scan_loop :: "env \<Rightarrow> (string \<times> string list) list \<Rightarrow> string list \<Rightarrow> state
    \<Rightarrow> string list outcome \<times> state" where
  "scan_loop env [] all_output st = (Return all_output, st)"
| "scan_loop env ((msg, cmd) # rest) all_output st =
     (case run_trufflehog env cmd (print msg st) of
        (Return output, st1) \<Rightarrow> scan_loop env rest (all_output @ [output]) st1
      | (Exit c, st1) \<Rightarrow> (Exit c, st1)
      | (Raise e, st1) \<Rightarrow> (Raise e, st1))"

definition org_cmd :: "env \<Rightarrow> string \<Rightarrow> json \<Rightarrow> string \<times> string list" where
  "org_cmd env token org =
     (''Scanning organization: '' @ fmt env org,
      [''trufflehog'', ''github'', ''--org='' @ fmt env org, ''--token='' @ token, ''--json''])"

definition repo_cmd_token :: "string \<Rightarrow> string \<Rightarrow> string \<times> string list" where
  "repo_cmd_token token repo =
     (''Scanning repository: '' @ repo,
      [''trufflehog'', ''github'', ''--repo='' @ repo, ''--token='' @ token, ''--json''])"

definition repo_cmd :: "string \<Rightarrow> string \<times> string list" where
  "repo_cmd repo =
     (''Scanning repository: '' @ repo, [''trufflehog'', ''github'', ''--repo='' @ repo, ''--json''])"

text \<open>\<open>'\n'.join(sorted(orgs))\<close>: the logins are whatever the server sent; sorting or
  joining anything but strings raises \<open>TypeError\<close>.\<close>

definition as_strings :: "json list \<Rightarrow> exn + string list" where
  "as_strings vs = emap (\<lambda>v. case v of JStr s \<Rightarrow> Inr s | _ \<Rightarrow> Inl TypeError) vs"

definition scan_my_repos_and_orgs ::
  "env \<Rightarrow> string \<Rightarrow> state \<Rightarrow> (string list outcome \<times> state) option" where
  "scan_my_repos_and_orgs env token st =
     obind (get_user_repos env token
              (print ''=== STEP 1: Fetching my repositories and organizations ==='' st))
       (\<lambda>repos st1.
          obind (get_orgs env token st1)
            (\<lambda>orgs st2.
               let st3 = write_file ''personal.txt''
                           (if repos \<noteq> [] then join [CHR 0x0A] (sort repos)
                            else ''No personal repositories found.'') st2
               in if orgs = []
                  then Some (scan_loop env (map (repo_cmd_token token) repos) []
                               (write_file ''org.txt'' ''No organizations found.'' st3))
                  else (case as_strings orgs of
                          Inl e \<Rightarrow> Some (Raise e, write_file ''org.txt'' [] st3)
                        | Inr names \<Rightarrow>
                            (case scan_loop env (map (org_cmd env token) orgs) []
                                    (write_file ''org.txt'' (join [CHR 0x0A] (sort names)) st3) of
                               (Return all_output, st4) \<Rightarrow>
                                 Some (scan_loop env (map (repo_cmd_token token) repos) all_output st4)
                             | (Exit c, st4) \<Rightarrow> Some (Exit c, st4)
                             | (Raise e, st4) \<Rightarrow> Some (Raise e, st4)))))"

definition scan_other_repos :: "env \<Rightarrow> string \<Rightarrow> state \<Rightarrow> string list outcome \<times> state" where
  "scan_other_repos env file_path st =
     (case read_lines st file_path of
        Inl e \<Rightarrow> (Raise e, st)
      | Inr repos \<Rightarrow> scan_loop env (map repo_cmd repos) [] st)"

text \<open>The first loop of \<open>scan_profile_repos\<close>, over the profiles.\<close>

fun profiles_loop :: "env \<Rightarrow> string option \<Rightarrow> string list \<Rightarrow> string list \<Rightarrow> state
    \<Rightarrow> (string list outcome \<times> state) option" where
  "profiles_loop env token [] all_repos st = Some (Return all_repos, st)"
| "profiles_loop env token (profile # rest) all_repos st =
     obind (get_profile_repos env profile token st)
       (\<lambda>repos st1.
          profiles_loop env token rest (all_repos @ repos)
            (print (''Profile '' @ profile @ '' has '' @ str_nat (length repos) @ '' repos'') st1))"

definition scan_profile_repos ::
  "env \<Rightarrow> string \<Rightarrow> string option \<Rightarrow> state \<Rightarrow> (string list outcome \<times> state) option" where
  "scan_profile_repos env file_path token st =
     (case read_lines st file_path of
        Inl e \<Rightarrow> Some (Raise e, st)
      | Inr profiles \<Rightarrow>
          obind (profiles_loop env token profiles [] st)
            (\<lambda>all_repos st1. Some (scan_loop env (map repo_cmd all_repos) [] st1)))"

section \<open>Docker functions\<close>

definition get_docker_token :: "env \<Rightarrow> string \<Rightarrow> string \<Rightarrow> state \<Rightarrow> json outcome \<times> state" where
  "get_docker_token env username password st =
     (case requests_post env ''https://hub.docker.com/v2/users/login/''
             [(''Content-Type'', ''application/json'')]
             (JObj [(''username'', JStr username), (''password'', JStr password)]) st of
        (r, st1) \<Rightarrow>
          if status_code r \<noteq> 200
          then (Exit 1, print (''Login failed: '' @ str_int (status_code r) @ '' '' @ body_text r) st1)
          else (case json_body r of
                  None \<Rightarrow> (Raise JSONDecodeError, st1)
                | Some data \<Rightarrow>
                    (case py_get data ''token'' JNull of
                       Inl e \<Rightarrow> (Raise e, st1)
                     | Inr t \<Rightarrow> (Return t, st1))))"

definition get_username_from_url :: "string \<Rightarrow> string" where
  "get_username_from_url u =
     (if contains_str ''/u/'' u then last (split_str ''/u/'' [] (rstrip_chars ''/'' u)) else strip u)"

text \<open>\<open>for repo in data.get("results", []): repos.append(repo["name"])\<close>\<close>

definition result_names :: "json \<Rightarrow> exn + json list" where
  "result_names data =
     ebind (py_get data ''results'' (JArr []))
       (\<lambda>results. ebind (py_iter results) (emap (\<lambda>repo. py_subscript repo ''name'')))"

text \<open>The loop of \<open>list_repositories\<close>; here \<open>url\<close> is what the previous page gave under
  \<open>"next"\<close>, of any type, and a response other than 200 ends the process.\<close>

partial_function (option) list_repositories_loop ::
  "env \<Rightarrow> (string \<times> string) list \<Rightarrow> json \<Rightarrow> json list \<Rightarrow> state
     \<Rightarrow> (json list outcome \<times> state) option" where
  "list_repositories_loop env hdrs url_v repos st =
     (if \<not> truthy url_v then Some (Return repos, st)
      else (case requests_get env (fmt env url_v) hdrs None st of
              (r, st1) \<Rightarrow>
                if status_code r \<noteq> 200
                then Some (Exit 1,
                       print (''Error fetching repositories: '' @ str_int (status_code r) @ '' '' @ body_text r) st1)
                else (case json_body r of
                        None \<Rightarrow> Some (Raise JSONDecodeError, st1)
                      | Some data \<Rightarrow>
                          (case result_names data of
                             Inl e \<Rightarrow> Some (Raise e, st1)
                           | Inr new \<Rightarrow>
                               (case py_get data ''next'' JNull of
                                  Inl e \<Rightarrow> Some (Raise e, st1)
                                | Inr nxt \<Rightarrow> list_repositories_loop env hdrs nxt (repos @ new) st1)))))"

definition list_repositories ::
  "env \<Rightarrow> string \<Rightarrow> json \<Rightarrow> state \<Rightarrow> (json list outcome \<times> state) option" where
  "list_repositories env username token st =
     list_repositories_loop env [(''Authorization'', ''JWT '' @ fmt env token)]
       (JStr (''https://hub.docker.com/v2/repositories/'' @ username @ ''/'')) [] st"

definition dockerhub_tag_endpoint :: "string \<Rightarrow> nat \<Rightarrow> string" where
  "dockerhub_tag_endpoint name page =
     ''https://hub.docker.com/v2/repositories/'' @ name @ ''/tags?page_size=100&page='' @ str_nat page"

definition deny_list :: "string list" where
  "deny_list = [''.sig'', ''.enc'']"

fun skip_tag :: "json \<Rightarrow> exn + bool" where
  "skip_tag (JStr tag_name) = Inr (\<exists>t \<in> set deny_list. endswith tag_name t)"
| "skip_tag _ = Inl AttributeError"

definition get_container_tag_page :: "env \<Rightarrow> string \<Rightarrow> nat \<Rightarrow> state \<Rightarrow> (exn + json) \<times> state" where
  "get_container_tag_page env name page st =
     (case requests_get env (dockerhub_tag_endpoint name page) [] None st of
        (response, st1) \<Rightarrow>
          (case json_body response of None \<Rightarrow> (Inl JSONDecodeError, st1) | Some v \<Rightarrow> (Inr v, st1)))"

text \<open>The body of a \<open>for x in xs\<close> loop run over a list, threading what the body builds
  and the state; an exit or an exception in the body ends the loop.\<close>

fun for_each :: "('x \<Rightarrow> 'a \<Rightarrow> state \<Rightarrow> 'a outcome \<times> state) \<Rightarrow> 'x list \<Rightarrow> 'a \<Rightarrow> state
    \<Rightarrow> 'a outcome \<times> state" where
  "for_each body [] acc st = (Return acc, st)"
| "for_each body (x # xs) acc st =
     (case body x acc st of
        (Return acc1, st1) \<Rightarrow> for_each body xs acc1 st1
      | (Exit c, st1) \<Rightarrow> (Exit c, st1)
      | (Raise e, st1) \<Rightarrow> (Raise e, st1))"

text \<open>
  \<open>get_container_tags\<close> is a generator: it fetches a page, hands its results one by one
  to the loop that consumes it, and only then fetches the next page. The model takes the
  body of the consuming loop as an argument and runs it on every result of a page before
  the next request. The generator stops at the first page without a true \<open>"next"\<close>; it
  does not look at the status of a response.
\<close>

partial_function (option) get_container_tags ::
  "env \<Rightarrow> (json \<Rightarrow> 'a \<Rightarrow> state \<Rightarrow> 'a outcome \<times> state) \<Rightarrow> string \<Rightarrow> nat \<Rightarrow> 'a \<Rightarrow> state
     \<Rightarrow> ('a outcome \<times> state) option" where
  "get_container_tags env body name page acc st =
     (case get_container_tag_page env name page st of
        (Inl e, st1) \<Rightarrow> Some (Raise e, st1)
      | (Inr response, st1) \<Rightarrow>
          (case ebind (py_get response ''results'' (JArr [])) py_iter of
             Inl e \<Rightarrow> Some (Raise e, st1)
           | Inr results \<Rightarrow>
               (case for_each body results acc st1 of
                  (Return acc1, st2) \<Rightarrow>
                    (case py_get response ''next'' JNull of
                       Inl e \<Rightarrow> Some (Raise e, st2)
                     | Inr nxt \<Rightarrow>
                         if \<not> truthy nxt then Some (Return acc1, st2)
                         else get_container_tags env body name (page + 1) acc1 st2)
                | (Exit c, st2) \<Rightarrow> Some (Exit c, st2)
                | (Raise e, st2) \<Rightarrow> Some (Raise e, st2))))"


text \<open>The parsing loop of \<open>scan_with_trufflehog\<close>: every line that is not blank is given
  to \<open>json.loads\<close>, and a line that does not decode is passed over.\<close>

fun parse_lines :: "env \<Rightarrow> string list \<Rightarrow> json list" where
  "parse_lines env [] = []"
| "parse_lines env (line # rest) =
     (if strip line \<noteq> []
      then (case json_loads env line of
              Some v \<Rightarrow> v # parse_lines env rest
            | None \<Rightarrow> parse_lines env rest)
      else parse_lines env rest)"

definition docker_cmd :: "string \<Rightarrow> string list" where
  "docker_cmd image_ref =
     [''trufflehog'', ''docker'', ''--image'', image_ref, ''--json'', ''--only-verified'', ''--no-update'']"

text \<open>Only the standard output is read here (standard error is discarded). The handler
  \<open>except Exception\<close> takes every exception of the call.\<close>

definition scan_with_trufflehog :: "env \<Rightarrow> string \<Rightarrow> state \<Rightarrow> json list \<times> state" where
  "scan_with_trufflehog env image_ref st =
     (case subprocess_run env (trace st) (docker_cmd image_ref) of
        Inr (stdout, stderr) \<Rightarrow>
          (parse_lines env (split_char (CHR 0x0A) (strip stdout)), log_event (Subprocess (docker_cmd image_ref)) st)
      | Inl (e, msg) \<Rightarrow>
          ([], print (''Error scanning '' @ image_ref @ '': '' @ msg) (log_event (Subprocess (docker_cmd image_ref)) st)))"

text \<open>\<open>finding.get("SourceMetadata", {}).get("Data", {}).get("Docker", {})\<close>\<close>

definition docker_meta_of :: "json \<Rightarrow> exn + json" where
  "docker_meta_of finding =
     ebind (py_get finding ''SourceMetadata'' (JObj [])) (\<lambda>source_metadata.
     ebind (py_get source_metadata ''Data'' (JObj [])) (\<lambda>data.
     py_get data ''Docker'' (JObj [])))"

definition parse_docker_finding :: "string \<Rightarrow> json \<Rightarrow> exn + row" where
  "parse_docker_finding image_ref finding =
     ebind (docker_meta_of finding) (\<lambda>docker_meta.
     ebind (py_get finding ''ExtraData'' JNull) (\<lambda>extra_data.
     let extra = (if truthy extra_data then extra_data else JObj []) in
     ebind (py_get docker_meta ''image'' (JStr image_ref)) (\<lambda>v_image.
     ebind (py_get docker_meta ''tag'' (JStr [])) (\<lambda>v_tag.
     ebind (py_get docker_meta ''layer'' (JStr [])) (\<lambda>v_layer.
     ebind (py_get docker_meta ''file'' (JStr [])) (\<lambda>v_file.
     ebind (py_get finding ''DetectorName'' (JStr [])) (\<lambda>v_detector_name.
     ebind (py_get finding ''DetectorType'' (JStr [])) (\<lambda>v_detector_type.
     ebind (py_get finding ''DetectorDescription'' (JStr [])) (\<lambda>v_detector_desc.
     ebind (py_get finding ''Raw'' (JStr [])) (\<lambda>v_raw.
     ebind (py_get finding ''Redacted'' (JStr [])) (\<lambda>v_redacted.
     ebind (py_get finding ''Verified'' (JBool False)) (\<lambda>v_verified.
     ebind (py_get extra ''rotation_guide'' (JStr [])) (\<lambda>v_rotation_guide.
     ebind (py_get extra ''version'' (JStr [])) (\<lambda>v_version.
     Inr [(''image'', v_image),
          (''tag'', v_tag),
          (''layer'', v_layer),
          (''file'', v_file),
          (''detector_name'', v_detector_name),
          (''detector_type'', v_detector_type),
          (''detector_desc'', v_detector_desc),
          (''raw'', v_raw),
          (''redacted'', v_redacted),
          (''verified'', v_verified),
          (''rotation_guide'', v_rotation_guide),
          (''version'', v_version)]))))))))))))))"

section \<open>Excel export\<close>

definition github_row :: "json \<Rightarrow> exn + row" where
  "github_row data =
     ebind (py_get data ''SourceMetadata'' (JObj [])) (\<lambda>source_metadata.
     ebind (py_get source_metadata ''Data'' (JObj [])) (\<lambda>d.
     ebind (py_get d ''Github'' (JObj [])) (\<lambda>github_data.
     ebind (py_get data ''DetectorName'' (JStr [])) (\<lambda>v_name.
     ebind (py_get data ''DetectorDescription'' (JStr [])) (\<lambda>v_desc.
     ebind (py_get data ''Verified'' (JStr [])) (\<lambda>v_verified.
     ebind (py_get data ''Raw'' (JStr [])) (\<lambda>v_raw.
     ebind (py_get github_data ''repository'' (JStr [])) (\<lambda>v_repository.
     ebind (py_get github_data ''commit'' (JStr [])) (\<lambda>v_commit.
     ebind (py_get github_data ''file'' (JStr [])) (\<lambda>v_file.
     ebind (py_get github_data ''line'' (JStr [])) (\<lambda>v_line.
     ebind (py_get github_data ''link'' (JStr [])) (\<lambda>v_link.
     ebind (py_get github_data ''email'' (JStr [])) (\<lambda>v_email.
     ebind (py_get github_data ''timestamp'' (JStr [])) (\<lambda>v_timestamp.
     Inr [(''DetectorName'', v_name),
          (''DetectorDescription'', v_desc),
          (''Verified'', v_verified),
          (''RawSecret'', v_raw),
          (''Repository'', v_repository),
          (''Commit'', v_commit),
          (''File'', v_file),
          (''Line'', v_line),
          (''Link'', v_link),
          (''Email'', v_email),
          (''Timestamp'', v_timestamp)]))))))))))))))"

text \<open>The reading loop of \<open>save_to_excel_github\<close>: only \<open>JSONDecodeError\<close> is handled, so
  an \<open>AttributeError\<close> from a line that decodes to something other than an object leaves
  the function.\<close>

fun github_rows :: "env \<Rightarrow> string list \<Rightarrow> exn + row list" where
  "github_rows env [] = Inr []"
| "github_rows env (line # rest) =
     (case json_loads env line of
        None \<Rightarrow> github_rows env rest
      | Some data \<Rightarrow>
          (case github_row data of
             Inl e \<Rightarrow> Inl e
           | Inr r \<Rightarrow> (case github_rows env rest of Inl e \<Rightarrow> Inl e | Inr rs \<Rightarrow> Inr (r # rs))))"

definition save_to_excel_github :: "env \<Rightarrow> string \<Rightarrow> string \<Rightarrow> state \<Rightarrow> unit outcome \<times> state" where
  "save_to_excel_github env results_file output_file st =
     (case read_lines st results_file of
        Inl e \<Rightarrow> (Raise e, st)
      | Inr ls \<Rightarrow>
          (case github_rows env ls of
             Inl e \<Rightarrow> (Raise e, st)
           | Inr rows \<Rightarrow>
               if rows \<noteq> []
               then (Return (),
                     print (''Parsed GitHub results saved to '' @ output_file @ '' ('' @ str_nat (length rows) @ '' findings)'')
                       (to_excel output_file rows st))
               else (Return (), print ''No valid GitHub JSON found, Excel not created.'' st)))"

definition save_to_excel_docker :: "row list \<Rightarrow> string \<Rightarrow> state \<Rightarrow> unit outcome \<times> state" where
  "save_to_excel_docker findings output_file st =
     (if findings \<noteq> []
      then (Return (),
            print (''Parsed Docker results saved to '' @ output_file @ '' ('' @ str_nat (length findings) @ '' findings)'')
              (to_excel output_file findings st))
      else (Return (), print ''No Docker findings, Excel not created.'' st))"


section \<open>Main\<close>

text \<open>The parsed command line. An option that was not given is \<open>None\<close>; \<open>arg_file\<close> is
  \<open>args.file\<close>; \<open>arg_output\<close> is \<open>args.output\<close>, which is \<open>Some ''output.xlsx''\<close> unless \<open>-o\<close> was given.\<close>

record args =
  git_me :: bool
  git_other :: bool
  git_profile :: bool
  docker_profile :: "string option"
  docker_repo :: "string option"
  arg_file :: "string option"
  arg_output :: "string option"
  all_tag :: bool

text \<open>Truth value of an optional string: \<open>None\<close> and the empty string are false.\<close>

definition given :: "string option \<Rightarrow> bool" where
  "given x = (case x of None \<Rightarrow> False | Some s \<Rightarrow> s \<noteq> [])"

text \<open>The body of \<open>for img in tag.get("images", [])\<close>.\<close>

definition main_image_body :: "env \<Rightarrow> string \<Rightarrow> json \<Rightarrow> row list \<Rightarrow> state \<Rightarrow> row list outcome \<times> state" where
  "main_image_body env full_repo img docker_findings st =
     (case py_subscript img ''digest'' of
        Inl e \<Rightarrow> (Raise e, st)
      | Inr digest \<Rightarrow>
          (case scan_with_trufflehog env (full_repo @ ''@'' @ fmt env digest) st of
             (findings, st1) \<Rightarrow>
               (case emap (parse_docker_finding full_repo) findings of
                  Inl e \<Rightarrow> (Raise e, st1)
                | Inr rows \<Rightarrow> (Return (docker_findings @ rows), log_event Sleep st1))))"

text \<open>The body of \<open>for tag in get_container_tags(full_repo)\<close>.\<close>

definition main_tag_body :: "env \<Rightarrow> string \<Rightarrow> json \<Rightarrow> row list \<Rightarrow> state \<Rightarrow> row list outcome \<times> state" where
  "main_tag_body env full_repo tag docker_findings st =
     (case py_subscript tag ''name'' of
        Inl e \<Rightarrow> (Raise e, st)
      | Inr tag_name \<Rightarrow>
          (case skip_tag tag_name of
             Inl e \<Rightarrow> (Raise e, st)
           | Inr skip \<Rightarrow>
               if skip then (Return docker_findings, st)
               else (case ebind (py_get tag ''images'' (JArr [])) py_iter of
                       Inl e \<Rightarrow> (Raise e, st)
                     | Inr imgs \<Rightarrow> for_each (main_image_body env full_repo) imgs docker_findings st)))"

text \<open>The body of \<open>for full_repo in repos\<close>.\<close>

definition main_repo_body ::
  "env \<Rightarrow> bool \<Rightarrow> string \<Rightarrow> row list \<Rightarrow> state \<Rightarrow> (row list outcome \<times> state) option" where
  "main_repo_body env all_tags full_repo docker_findings st =
     (let st0 = print (CHR 0x0A # ''[+] Scanning repository: '' @ full_repo) st
      in if all_tags
         then get_container_tags env (main_tag_body env full_repo) full_repo 1 docker_findings st0
         else (case scan_with_trufflehog env (full_repo @ '':latest'') st0 of
                 (findings, st1) \<Rightarrow>
                   (case emap (parse_docker_finding full_repo) findings of
                      Inl e \<Rightarrow> Some (Raise e, st1)
                    | Inr rows \<Rightarrow> Some (Return (docker_findings @ rows), st1))))"

fun main_repos_loop ::
  "env \<Rightarrow> bool \<Rightarrow> string list \<Rightarrow> row list \<Rightarrow> state \<Rightarrow> (row list outcome \<times> state) option" where
  "main_repos_loop env all_tags [] docker_findings st = Some (Return docker_findings, st)"
| "main_repos_loop env all_tags (full_repo # repos) docker_findings st =
     obind (main_repo_body env all_tags full_repo docker_findings st)
       (\<lambda>df st1. main_repos_loop env all_tags repos df st1)"

text \<open>The GitHub modes: the \<open>if\<close>/\<open>elif\<close> chain that fills \<open>all_output\<close>.\<close>

definition main_github_modes ::
  "env \<Rightarrow> args \<Rightarrow> string option \<Rightarrow> state \<Rightarrow> (string list outcome \<times> state) option" where
  "main_github_modes env a github_token st =
     (if git_me a then
        (case github_token of
           None \<Rightarrow> Some (Exit 1, print ''GitHub token not found in cred.conf'' st)
         | Some t \<Rightarrow>
             if t = [] then Some (Exit 1, print ''GitHub token not found in cred.conf'' st)
             else scan_my_repos_and_orgs env t st)
      else if git_other a then
        (if \<not> given (arg_file a) then Some (Exit 1, print ''Error: --git-other requires -f <repos.txt>'' st)
         else Some (scan_other_repos env (the (arg_file a)) st))
      else if git_profile a then
        (if \<not> given (arg_file a) then Some (Exit 1, print ''Error: --git-profile requires -f <profile.txt>'' st)
         else scan_profile_repos env (the (arg_file a)) github_token st)
      else Some (Return [], st))"

text \<open>\<open>if all_output: ...\<close>: the results file and its export.\<close>

definition main_write_results :: "env \<Rightarrow> args \<Rightarrow> string list \<Rightarrow> state \<Rightarrow> unit outcome \<times> state" where
  "main_write_results env a all_output st =
     (if all_output \<noteq> [] then
        (let st1 = write_file ''results.txt'' (join [CHR 0x0A] all_output) st
         in if given (arg_output a) then save_to_excel_github env ''results.txt'' (the (arg_output a)) st1
            else (Return (), st1))
      else (Return (), st))"

text \<open>The Docker modes: the list of repositories, by profile or from the file.\<close>

definition main_docker_repos ::
  "env \<Rightarrow> args \<Rightarrow> json \<Rightarrow> state \<Rightarrow> (string list outcome \<times> state) option" where
  "main_docker_repos env a token st =
     (if given (docker_profile a) then
        (case fs st (the (docker_profile a)) of
           None \<Rightarrow> Some (Raise FileNotFoundError, st)
         | Some f \<Rightarrow>
             (let username = get_username_from_url (strip (universal_newlines f))
              in obind (list_repositories env username token st)
                   (\<lambda>repos st1. Some (Return (map (\<lambda>r. username @ ''/'' @ fmt env r) repos), st1))))
      else (case read_lines st (the (docker_repo a)) of
              Inl e \<Rightarrow> Some (Raise e, st)
            | Inr repos \<Rightarrow> Some (Return repos, st)))"

definition main_docker_modes ::
  "env \<Rightarrow> args \<Rightarrow> string option \<Rightarrow> string option \<Rightarrow> state \<Rightarrow> (unit outcome \<times> state) option" where
  "main_docker_modes env a docker_user docker_pass st =
     (if given (docker_profile a) \<or> given (docker_repo a) then
        (if \<not> given docker_user \<or> \<not> given docker_pass
         then Some (Exit 1, print ''Docker credentials not found in cred.conf'' st)
         else obind (Some (get_docker_token env (the docker_user) (the docker_pass) st))
                (\<lambda>token st1.
                   obind (main_docker_repos env a token st1)
                     (\<lambda>repos st2.
                        obind (main_repos_loop env (all_tag a) repos []
                                 (print (''Saved '' @ str_nat (length repos) @ '' repositories to image.txt'')
                                    (write_file ''image.txt'' (concat (map (\<lambda>repo. repo @ [CHR 0x0A]) repos)) st2)))
                          (\<lambda>docker_findings st3.
                             if given (arg_output a)
                             then Some (save_to_excel_docker docker_findings (the (arg_output a)) st3)
                             else Some (Return (), st3)))))
      else Some (Return (), st))"

definition main :: "env \<Rightarrow> args \<Rightarrow> state \<Rightarrow> (unit outcome \<times> state) option" where
  "main env a st =
     obind (Some (read_credentials env st))
       (\<lambda>creds st1.
          case creds of
            (github_token, docker_user, docker_pass) \<Rightarrow>
              obind (main_github_modes env a github_token st1)
                (\<lambda>all_output st2.
                   obind (Some (main_write_results env a all_output st2))
                     (\<lambda>u st3. main_docker_modes env a docker_user docker_pass st3)))"


section \<open>Notions the properties are stated with\<close>

text \<open>The commands given to \<open>subprocess.run\<close>, in order: the scanner's invocations.\<close>

fun scanner_calls :: "event list \<Rightarrow> string list list" where
  "scanner_calls [] = []"
| "scanner_calls (Subprocess cmd # es) = cmd # scanner_calls es"
| "scanner_calls (e # es) = scanner_calls es"

text \<open>The requests issued, in order.\<close>

fun requests_of :: "event list \<Rightarrow> request list" where
  "requests_of [] = []"
| "requests_of (Http rq # es) = rq # requests_of es"
| "requests_of (e # es) = requests_of es"

text \<open>
  A GitHub listing that meets a failure: starting at \<open>url_opt\<close> with the events \<open>h\<close>
  behind it, the server answers 200 with the pages given (as the listing decodes them),
  each naming a next page, and then answers the next request with another status.
\<close>

fun pages_then_failure ::
  "env \<Rightarrow> (string \<times> string) list \<Rightarrow> (json \<Rightarrow> exn + 'a list) \<Rightarrow> string option
     \<Rightarrow> (string \<times> string) list option \<Rightarrow> event list \<Rightarrow> 'a list list \<Rightarrow> bool" where
  "pages_then_failure env hdrs decode url_opt ps h [] =
     (case url_opt of
        None \<Rightarrow> False
      | Some u \<Rightarrow> u \<noteq> [] \<and> status_code (http env h (get_request u hdrs ps)) \<noteq> 200)"
| "pages_then_failure env hdrs decode url_opt ps h (page # pages) =
     (case url_opt of
        None \<Rightarrow> False
      | Some u \<Rightarrow>
          u \<noteq> [] \<and> status_code (http env h (get_request u hdrs ps)) = 200
          \<and> (case json_body (http env h (get_request u hdrs ps)) of
                None \<Rightarrow> False
              | Some data \<Rightarrow> decode data = Inr page)
          \<and> pages_then_failure env hdrs decode (next_link (http env h (get_request u hdrs ps))) None
               (h @ [Http (get_request u hdrs ps)]) pages)"

text \<open>The same for the Docker Hub repository listing, where the next page is named in the
  body of the page.\<close>

fun hub_pages_then_failure ::
  "env \<Rightarrow> (string \<times> string) list \<Rightarrow> json \<Rightarrow> event list \<Rightarrow> json list list \<Rightarrow> bool" where
  "hub_pages_then_failure env hdrs url_v h [] =
     (truthy url_v \<and> status_code (http env h (get_request (fmt env url_v) hdrs None)) \<noteq> 200)"
| "hub_pages_then_failure env hdrs url_v h (page # pages) =
     (truthy url_v \<and> status_code (http env h (get_request (fmt env url_v) hdrs None)) = 200
      \<and> (case json_body (http env h (get_request (fmt env url_v) hdrs None)) of
            None \<Rightarrow> False
          | Some data \<Rightarrow>
              result_names data = Inr page
              \<and> (case py_get data ''next'' JNull of
                    Inl e \<Rightarrow> False
                  | Inr nxt \<Rightarrow>
                      hub_pages_then_failure env hdrs nxt
                        (h @ [Http (get_request (fmt env url_v) hdrs None)]) pages)))"

text \<open>Following the spec's words: the trailing path segment of a URL's path, the text
  after the last slash once trailing slashes are taken off.\<close>

definition trailing_path_segment :: "string \<Rightarrow> string" where
  "trailing_path_segment p = rev (takeWhile (\<lambda>c. c \<noteq> CHR ''/'') (rev (rstrip_chars ''/'' p)))"

text \<open>The \<open>"image"\<close> entry of a finding's Docker metadata, if the metadata has one.\<close>

definition docker_image_field :: "json \<Rightarrow> json option" where
  "docker_image_field finding =
     (case docker_meta_of finding of Inr (JObj dm) \<Rightarrow> map_of dm ''image'' | _ \<Rightarrow> None)"

text \<open>A tag record whose name ends in \<open>.sig\<close> or \<open>.enc\<close>.\<close>

definition tag_denied :: "json \<Rightarrow> bool" where
  "tag_denied tag =
     (case tag of
        JObj kvs \<Rightarrow>
          (case map_of kvs ''name'' of
             Some (JStr n) \<Rightarrow> endswith n ''.sig'' \<or> endswith n ''.enc''
           | _ \<Rightarrow> False)
      | _ \<Rightarrow> False)"

text \<open>The image records a tag lists, and the digest of an image record, for tag records
  shaped as Docker Hub sends them.\<close>

definition tag_images :: "json \<Rightarrow> json list" where
  "tag_images tag =
     (case tag of
        JObj kvs \<Rightarrow> (case dict_get kvs ''images'' (JArr []) of JArr imgs \<Rightarrow> imgs | _ \<Rightarrow> [])
      | _ \<Rightarrow> [])"

definition image_digest :: "json \<Rightarrow> json" where
  "image_digest img = (case img of JObj kvs \<Rightarrow> dict_get kvs ''digest'' JNull | _ \<Rightarrow> JNull)"

definition wf_image :: "json \<Rightarrow> bool" where
  "wf_image img = (case img of JObj kvs \<Rightarrow> map_of kvs ''digest'' \<noteq> None | _ \<Rightarrow> False)"

definition wf_tag :: "json \<Rightarrow> bool" where
  "wf_tag tag =
     (case tag of
        JObj kvs \<Rightarrow>
          (case map_of kvs ''name'' of
             Some (JStr n) \<Rightarrow>
               tag_denied tag
               \<or> (case dict_get kvs ''images'' (JArr []) of JArr imgs \<Rightarrow> list_all wf_image imgs | _ \<Rightarrow> False)
           | _ \<Rightarrow> False)
      | _ \<Rightarrow> False)"

text \<open>The image references the listed tags call for: one per image record of every tag
  that is not denied, in the order of the listing.\<close>

definition tag_targets :: "env \<Rightarrow> string \<Rightarrow> json \<Rightarrow> string list" where
  "tag_targets env full_repo tag =
     (if tag_denied tag then []
      else map (\<lambda>img. full_repo @ ''@'' @ fmt env (image_digest img)) (tag_images tag))"

text \<open>
  Docker Hub serving the tags of a repository as the pages given, from page \<open>page\<close> on:
  whenever it is asked for one of these pages it answers with an object whose
  \<open>"results"\<close> are the page's tag records, and only the last page has no \<open>"next"\<close>.
\<close>

fun tags_served :: "env \<Rightarrow> string \<Rightarrow> nat \<Rightarrow> json list list \<Rightarrow> bool" where
  "tags_served env name page [] = False"
| "tags_served env name page (tags # later) =
     ((\<forall>h. \<exists>kvs. json_body (http env h (get_request (dockerhub_tag_endpoint name page) [] None)) = Some (JObj kvs)
            \<and> dict_get kvs ''results'' (JArr []) = JArr tags
            \<and> truthy (dict_get kvs ''next'' JNull) = (later \<noteq> []))
      \<and> (later \<noteq> [] \<longrightarrow> tags_served env name (page + 1) later))"

text \<open>Every finding the scanner reports for an image of the repository can be
  normalized.\<close>

definition findings_normalizable :: "env \<Rightarrow> string \<Rightarrow> bool" where
  "findings_normalizable env full_repo =
     (\<forall>image_ref st. \<exists>rows.
        emap (parse_docker_finding full_repo) (fst (scan_with_trufflehog env image_ref st)) = Inr rows)"

section \<open>Concrete worlds\<close>

text \<open>The empty working directory, before anything happened.\<close>

definition st0 :: state where
  "st0 = \<lparr>fs = Map.empty, sheets = Map.empty, out = [], trace = []\<rparr>"

text \<open>
  The path of a URL of the form \<open>scheme://host/path?query#fragment\<close>, which is what
  \<open>urlparse(u).path\<close> gives for such a URL.
\<close>

definition url_path :: "string \<Rightarrow> string" where
  "url_path u =
     (let s = takeWhile (\<lambda>c. c \<noteq> CHR '':'') u;
          rest = (if CHR '':'' \<in> set u \<and> s \<noteq> [] then drop (length s + 1) u else u);
          after_host = (if take 2 rest = ''//'' then dropWhile (\<lambda>c. c \<notin> set ''/?#'') (drop 2 rest) else rest)
      in takeWhile (\<lambda>c. c \<noteq> CHR ''?'') (takeWhile (\<lambda>c. c \<noteq> CHR ''#'') after_host))"

definition not_found :: response where
  "not_found = \<lparr>status_code = 404, body_text = ''Not Found'', json_body = None, links = []\<rparr>"

definition ok_json :: "json \<Rightarrow> (string \<times> (string \<times> string) list) list \<Rightarrow> response" where
  "ok_json v ls = \<lparr>status_code = 200, body_text = [], json_body = Some v, links = ls\<rparr>"

text \<open>A world in which every request is answered with 404, the scanner runs and prints
  nothing, and no document decodes.\<close>

definition quiet_env :: env where
  "quiet_env =
     \<lparr>http = (\<lambda>h rq. not_found),
      subprocess_run = (\<lambda>h cmd. Inr ([], [])),
      yaml_safe_load = (\<lambda>s. Inl ''cannot parse''),
      json_loads = (\<lambda>s. None),
      urlparse_path = url_path,
      py_str = (\<lambda>v. ''?'')\<rparr>"


text \<open>Worlds without a usable scanner: the binary is missing, or may not be executed.\<close>

definition no_scanner_env :: env where
  "no_scanner_env =
     quiet_env\<lparr>subprocess_run := (\<lambda>h cmd. Inl (FileNotFoundError, ''No such file or directory''))\<rparr>"

definition denied_env :: env where
  "denied_env = quiet_env\<lparr>subprocess_run := (\<lambda>h cmd. Inl (PermissionError, ''Permission denied''))\<rparr>"

text \<open>A world in which every listing has one page and then fails: the first request of
  each listing is answered with one entry and the name of a next page, and the next page
  is answered with 404.\<close>

definition paged_env :: env where
  "paged_env =
     quiet_env\<lparr>http := (\<lambda>h rq.
        if url rq \<in> {''https://api.github.com/user/repos'', ''https://api.github.com/user/orgs'',
                      ''https://api.github.com/users/alice/repos''}
        then ok_json (JArr [JObj [(''full_name'', JStr ''alice/app''), (''login'', JStr ''acme'')]])
               [(''next'', [(''url'', ''https://api.github.com/next'')])]
        else if url rq = ''https://hub.docker.com/v2/repositories/alice/''
        then ok_json (JObj [(''results'', JArr [JObj [(''name'', JStr ''app'')]]),
                            (''next'', JStr ''https://hub.docker.com/next'')]) []
        else not_found)\<rparr>"

text \<open>
  Scenario A of the spec: the credential file holds the token \<open>tok123\<close>, the user owns
  two repositories and belongs to one organization, and the scanner runs.
\<close>

definition scenario_A_env :: env where
  "scenario_A_env =
     quiet_env\<lparr>
       http := (\<lambda>h rq.
         if url rq = ''https://api.github.com/user/repos''
         then ok_json (JArr [JObj [(''full_name'', JStr ''alice/zeta'')], JObj [(''full_name'', JStr ''alice/app'')]]) []
         else if url rq = ''https://api.github.com/user/orgs''
         then ok_json (JArr [JObj [(''login'', JStr ''acme'')]]) []
         else not_found),
       subprocess_run := (\<lambda>h cmd. Inr (''scanned'', [])),
       yaml_safe_load := (\<lambda>s. if s = ''github: [tok123]''
                               then Inr (JObj [(''github'', JArr [JStr ''tok123''])])
                               else Inl ''cannot parse'')\<rparr>"

definition scenario_A_state :: state where
  "scenario_A_state = st0\<lparr>fs := [''cred.conf'' \<mapsto> ''github: [tok123]'']\<rparr>"

definition scenario_A_args :: args where
  "scenario_A_args =
     \<lparr>git_me = True, git_other = False, git_profile = False, docker_profile = None,
      docker_repo = None, arg_file = None, arg_output = Some ''output.xlsx'', all_tag = False\<rparr>"

text \<open>
  Scenario B of the spec: \<open>repos.txt\<close> lists \<open>alice/app\<close>, whose tags are \<open>v1\<close> and
  \<open>v1.sig\<close>, each with one image digest; a scan of the image of \<open>v1\<close> (or of \<open>alice/app:latest\<close>)
  reports one finding, which names no image and is normalized to \<open>row_B\<close>.
\<close>

definition tag_v1 :: json where
  "tag_v1 = JObj [(''name'', JStr ''v1''), (''images'', JArr [JObj [(''digest'', JStr ''sha256:aaa'')]])]"

definition tag_v1_sig :: json where
  "tag_v1_sig = JObj [(''name'', JStr ''v1.sig''), (''images'', JArr [JObj [(''digest'', JStr ''sha256:bbb'')]])]"

definition finding_line :: string where
  \<open>finding_line = ''{"DetectorName": "AWS", "Verified": true, "SourceMetadata": {"Data": {"Docker": {"tag": "v1"}}}}''\<close>

definition finding_B :: json where
  "finding_B =
     JObj [(''DetectorName'', JStr ''AWS''), (''Verified'', JBool True),
           (''SourceMetadata'', JObj [(''Data'', JObj [(''Docker'', JObj [(''tag'', JStr ''v1'')])])])]"

definition row_B :: row where
  "row_B =
     [(''image'', JStr ''alice/app''), (''tag'', JStr ''v1''), (''layer'', JStr []), (''file'', JStr []),
      (''detector_name'', JStr ''AWS''), (''detector_type'', JStr []), (''detector_desc'', JStr []),
      (''raw'', JStr []), (''redacted'', JStr []), (''verified'', JBool True),
      (''rotation_guide'', JStr []), (''version'', JStr [])]"

definition scenario_B_env :: env where
  "scenario_B_env =
     quiet_env\<lparr>
       http := (\<lambda>h rq.
         if meth rq = POST \<and> url rq = ''https://hub.docker.com/v2/users/login/''
         then ok_json (JObj [(''token'', JStr ''jwt'')]) []
         else if url rq = ''https://hub.docker.com/v2/repositories/alice/app/tags?page_size=100&page=1''
         then ok_json (JObj [(''results'', JArr [tag_v1, tag_v1_sig]), (''next'', JNull)]) []
         else not_found),
       subprocess_run := (\<lambda>h cmd.
         if cmd = docker_cmd ''alice/app@sha256:aaa'' \<or> cmd = docker_cmd ''alice/app:latest''
         then Inr (finding_line @ [CHR 0x0A], [])
         else Inr ([], [])),
       json_loads := (\<lambda>s. if s = finding_line then Some finding_B else None),
       yaml_safe_load := (\<lambda>s. if s = ''docker: [alice:secret]''
                               then Inr (JObj [(''docker'', JArr [JStr ''alice:secret''])])
                               else Inl ''cannot parse'')\<rparr>"

definition scenario_B_state :: state where
  "scenario_B_state =
     st0\<lparr>fs := [''cred.conf'' \<mapsto> ''docker: [alice:secret]'', ''repos.txt'' \<mapsto> ''alice/app'' @ [CHR 0x0A]]\<rparr>"

definition scenario_B_args :: args where
  "scenario_B_args =
     \<lparr>git_me = False, git_other = False, git_profile = False, docker_profile = None,
      docker_repo = Some ''repos.txt'', arg_file = None, arg_output = Some ''output.xlsx'', all_tag = True\<rparr>"

text \<open>A credential file whose Docker line has no colon.\<close>

definition no_colon_env :: env where
  "no_colon_env =
     quiet_env\<lparr>yaml_safe_load := (\<lambda>s. if s = ''docker: [alicesecret]''
                                         then Inr (JObj [(''docker'', JArr [JStr ''alicesecret''])])
                                         else Inl ''cannot parse'')\<rparr>"

definition no_colon_state :: state where
  "no_colon_state = st0\<lparr>fs := [''cred.conf'' \<mapsto> ''docker: [alicesecret]'']\<rparr>"


section \<open>Auxiliary facts\<close>

lemmas eval_defs =
  quiet_env_def ok_json_def not_found_def st0_def docker_cmd_def
  ebind_def dict_get_def fmt_def log_event_def print_def write_file_def to_excel_def
  strip_def strip_by_def lstrip_by_def rstrip_by_def is_space_def strip_chars_def rstrip_chars_def
  get_request_def post_request_def requests_get_def requests_post_def next_link_def
  endswith_def deny_list_def

declare str_nat.simps [simp del]

lemma ebind_eq_Inr: "(ebind m f = Inr y) = (\<exists>a. m = Inr a \<and> f a = Inr y)"
  by (cases m) (simp_all add: ebind_def)

lemma emap_list_all2: "emap f xs = Inr ys \<Longrightarrow> list_all2 (\<lambda>x y. f x = Inr y) xs ys"
  by (induction xs arbitrary: ys) (auto split: sum.splits)

lemma scanner_calls_append: "scanner_calls (es @ es2) = scanner_calls es @ scanner_calls es2"
  by (induction es rule: scanner_calls.induct) simp_all

lemma requests_of_append: "requests_of (es @ es2) = requests_of es @ requests_of es2"
  by (induction es rule: requests_of.induct) simp_all

subsection \<open>The Docker normalizer\<close>

lemma parse_docker_finding_row:
  assumes dm: "docker_meta_of (JObj kvs) = Inr (JObj dm)"
      and ex: "\<not> truthy (dict_get kvs ''ExtraData'' JNull)"
  shows "parse_docker_finding ref (JObj kvs) =
     Inr [(''image'', dict_get dm ''image'' (JStr ref)),
          (''tag'', dict_get dm ''tag'' (JStr [])),
          (''layer'', dict_get dm ''layer'' (JStr [])),
          (''file'', dict_get dm ''file'' (JStr [])),
          (''detector_name'', dict_get kvs ''DetectorName'' (JStr [])),
          (''detector_type'', dict_get kvs ''DetectorType'' (JStr [])),
          (''detector_desc'', dict_get kvs ''DetectorDescription'' (JStr [])),
          (''raw'', dict_get kvs ''Raw'' (JStr [])),
          (''redacted'', dict_get kvs ''Redacted'' (JStr [])),
          (''verified'', dict_get kvs ''Verified'' (JBool False)),
          (''rotation_guide'', JStr []),
          (''version'', JStr [])]"
  using ex unfolding parse_docker_finding_def dm
  by (simp add: ebind_def dict_get_def)

lemma parse_docker_finding_image:
  "parse_docker_finding ref finding = Inr r \<Longrightarrow>
     \<exists>dmv v. docker_meta_of finding = Inr dmv \<and> py_get dmv ''image'' (JStr ref) = Inr v
        \<and> map_of r ''image'' = Some v"
  by (auto simp: parse_docker_finding_def ebind_eq_Inr Let_def)

lemma parse_docker_finding_image_default:
  assumes "docker_image_field finding = None" and "parse_docker_finding ref finding = Inr r"
  shows "map_of r ''image'' = Some (JStr ref)"
proof -
  from parse_docker_finding_image [OF assms(2)] obtain dmv v where
    dm: "docker_meta_of finding = Inr dmv" and g: "py_get dmv ''image'' (JStr ref) = Inr v"
    and r: "map_of r ''image'' = Some v" by blast
  from g obtain kvs where k: "dmv = JObj kvs" by (cases dmv) simp_all
  from assms(1) dm k have "map_of kvs ''image'' = None" by (simp add: docker_image_field_def)
  with g k have "v = JStr ref" by (simp add: dict_get_def)
  with r show ?thesis by simp
qed

lemma rows_image_default:
  assumes "emap (parse_docker_finding ref) findings = Inr rows"
  shows "list_all2 (\<lambda>f r. parse_docker_finding ref f = Inr r
            \<and> (docker_image_field f = None \<longrightarrow> map_of r ''image'' = Some (JStr ref))) findings rows"
  using emap_list_all2 [OF assms]
  by (rule list_all2_mono) (auto dest: parse_docker_finding_image_default)

lemma parse_finding_B: "parse_docker_finding ''alice/app'' finding_B = Inr row_B"
  by (simp add: parse_docker_finding_def docker_meta_of_def finding_B_def row_B_def eval_defs)

subsection \<open>One scan\<close>

lemma scan_with_trufflehog_trace:
  "scan_with_trufflehog env image_ref st = (findings, st1) \<Longrightarrow>
     trace st1 = trace st @ [Subprocess (docker_cmd image_ref)]"
  by (auto simp: scan_with_trufflehog_def log_event_def print_def split: sum.splits prod.splits)

lemma main_image_body_Return:
  assumes "main_image_body env full_repo img df st = (Return df', st')"
  shows "\<exists>digest rows. py_subscript img ''digest'' = Inr digest
           \<and> emap (parse_docker_finding full_repo)
                (fst (scan_with_trufflehog env (full_repo @ ''@'' @ fmt env digest) st)) = Inr rows
           \<and> df' = df @ rows
           \<and> trace st' = trace st @ [Subprocess (docker_cmd (full_repo @ ''@'' @ fmt env digest)), Sleep]"
  using assms
  by (auto simp: main_image_body_def log_event_def split: sum.splits prod.splits
           dest: scan_with_trufflehog_trace)

lemma py_subscript_digest: "py_subscript img ''digest'' = Inr d \<Longrightarrow> image_digest img = d"
  by (cases img) (auto simp: image_digest_def dict_get_def split: option.splits)

lemma scan_B_digest:
  "scan_with_trufflehog scenario_B_env ''alice/app@sha256:aaa'' st =
     ([finding_B], log_event (Subprocess (docker_cmd ''alice/app@sha256:aaa'')) st)"
  by (simp add: scan_with_trufflehog_def scenario_B_env_def finding_line_def eval_defs)

lemma scan_B_latest:
  "scan_with_trufflehog scenario_B_env ''alice/app:latest'' st =
     ([finding_B], log_event (Subprocess (docker_cmd ''alice/app:latest'')) st)"
  by (simp add: scan_with_trufflehog_def scenario_B_env_def finding_line_def eval_defs)

subsection \<open>The credential loader and failing scans\<close>

lemma set_strip_subset: "set (strip s) \<subseteq> set s"
proof -
  have "set (rev (dropWhile is_space (rev (dropWhile is_space s)))) \<subseteq> set s"
    using set_dropWhileD [of _ is_space "rev (dropWhile is_space s)"] set_dropWhileD [of _ is_space s]
    by auto
  then show ?thesis
    by (simp add: strip_def strip_by_def lstrip_by_def rstrip_by_def)
qed

lemma conf_first_list:
  assumes "map_of kvs k = Some (JArr (JStr line # others))"
  shows "conf_first (JObj kvs) k = Inr (Some (strip line))"
proof -
  from assms have "k \<in> fst ` set kvs"
    by (metis map_of_eq_None_iff option.distinct(1))
  with assms show ?thesis
    by (simp add: conf_first_def ebind_def)
qed

lemma read_credentials_no_colon:
  assumes "fs st ''cred.conf'' = Some f"
      and "yaml_safe_load env f = Inr (JObj kvs)"
      and "map_of kvs ''docker'' = Some (JArr (JStr line # others))"
      and "CHR '':'' \<notin> set line"
  shows "read_credentials env st =
           (case conf_first (JObj kvs) ''github'' of
              Inl e \<Rightarrow> (Raise e, st)
            | Inr t \<Rightarrow> (Exit 1, print ''Error: Docker credentials must be in format username:password'' st))"
proof -
  from assms(4) set_strip_subset [of line] have "CHR '':'' \<notin> set (strip line)" by blast
  with assms(1,2) conf_first_list [OF assms(3)] show ?thesis
    by (simp add: read_credentials_def split: sum.splits)
qed

lemma main_repos_loop_all_fail:
  assumes "\<forall>h cmd. \<exists>e msg. subprocess_run env h cmd = Inl (e, msg)"
  shows "\<exists>st'. main_repos_loop env False repos df st = Some (Return df, st')
           \<and> scanner_calls (trace st') = scanner_calls (trace st) @ map (\<lambda>r. docker_cmd (r @ '':latest'')) repos"
proof (induction repos arbitrary: st)
  case Nil
  then show ?case by simp
next
  case (Cons r repos)
  let ?st0 = "print (CHR 0x0A # ''[+] Scanning repository: '' @ r) st"
  from assms obtain e msg where f: "subprocess_run env (trace ?st0) (docker_cmd (r @ '':latest'')) = Inl (e, msg)"
    by blast
  define st1 where "st1 = print (''Error scanning '' @ (r @ '':latest'') @ '': '' @ msg) (log_event (Subprocess (docker_cmd (r @ '':latest''))) ?st0)"
  from f have b: "main_repo_body env False r df st = Some (Return df, st1)"
    by (simp add: main_repo_body_def scan_with_trufflehog_def st1_def)
  have t: "scanner_calls (trace st1) = scanner_calls (trace st) @ [docker_cmd (r @ '':latest'')]"
    by (simp add: st1_def print_def log_event_def scanner_calls_append)
  from Cons.IH [of st1] obtain st' where
    "main_repos_loop env False repos df st1 = Some (Return df, st')"
    "scanner_calls (trace st') = scanner_calls (trace st1) @ map (\<lambda>r. docker_cmd (r @ '':latest'')) repos"
    by blast
  with b t show ?case by (simp add: obind_def)
qed

subsection \<open>Listings that meet a failure\<close>

lemma get_user_repos_loop_partial:
  "pages_then_failure env hdrs (repo_urls env) url_opt ps (trace st) pages \<Longrightarrow>
     \<exists>st'. get_user_repos_loop env hdrs url_opt ps repos st = Some (Return (repos @ concat pages), st')"
proof (induction pages arbitrary: url_opt ps repos st)
  case Nil
  then show ?case
    by (subst get_user_repos_loop.simps) (auto simp: requests_get_def split: option.splits)
next
  case (Cons page pages)
  from Cons.prems obtain u where u: "url_opt = Some u" "u \<noteq> []"
    by (auto split: option.splits)
  let ?r = "http env (trace st) (get_request u hdrs ps)"
  let ?st1 = "log_event (Http (get_request u hdrs ps)) st"
  from Cons.prems u have ok: "status_code ?r = 200" by simp
  from Cons.prems u obtain data where d: "json_body ?r = Some data" "repo_urls env data = Inr page"
    by (auto split: option.splits)
  from Cons.prems u have "pages_then_failure env hdrs (repo_urls env) (next_link ?r) None (trace ?st1) pages"
    by (simp add: log_event_def)
  from Cons.IH [OF this, of "repos @ page"] obtain st' where
    "get_user_repos_loop env hdrs (next_link ?r) None (repos @ page) ?st1 = Some (Return (repos @ page @ concat pages), st')"
    by auto
  with u ok d show ?case
    by (subst get_user_repos_loop.simps) (simp add: requests_get_def)
qed

lemma get_orgs_loop_partial:
  "pages_then_failure env hdrs org_logins url_opt None (trace st) pages \<Longrightarrow>
     \<exists>st'. get_orgs_loop env hdrs url_opt orgs st = Some (Return (orgs @ concat pages), st')"
proof (induction pages arbitrary: url_opt orgs st)
  case Nil
  then show ?case
    by (subst get_orgs_loop.simps) (auto simp: requests_get_def split: option.splits)
next
  case (Cons page pages)
  from Cons.prems obtain u where u: "url_opt = Some u" "u \<noteq> []"
    by (auto split: option.splits)
  let ?r = "http env (trace st) (get_request u hdrs None)"
  let ?st1 = "log_event (Http (get_request u hdrs None)) st"
  from Cons.prems u have ok: "status_code ?r = 200" by simp
  from Cons.prems u obtain data where d: "json_body ?r = Some data" "org_logins data = Inr page"
    by (auto split: option.splits)
  from Cons.prems u have "pages_then_failure env hdrs org_logins (next_link ?r) None (trace ?st1) pages"
    by (simp add: log_event_def)
  from Cons.IH [OF this, of "orgs @ page"] obtain st' where
    "get_orgs_loop env hdrs (next_link ?r) (orgs @ page) ?st1 = Some (Return (orgs @ page @ concat pages), st')"
    by auto
  with u ok d show ?case
    by (subst get_orgs_loop.simps) (simp add: requests_get_def)
qed

lemma get_profile_repos_loop_partial:
  "pages_then_failure env hdrs (repo_urls env) url_opt ps (trace st) pages \<Longrightarrow>
     \<exists>st'. get_profile_repos_loop env username hdrs url_opt ps repos st = Some (Return (repos @ concat pages), st')"
proof (induction pages arbitrary: url_opt ps repos st)
  case Nil
  then show ?case
    by (subst get_profile_repos_loop.simps) (auto simp: requests_get_def split: option.splits)
next
  case (Cons page pages)
  from Cons.prems obtain u where u: "url_opt = Some u" "u \<noteq> []"
    by (auto split: option.splits)
  let ?r = "http env (trace st) (get_request u hdrs ps)"
  let ?st1 = "log_event (Http (get_request u hdrs ps)) st"
  from Cons.prems u have ok: "status_code ?r = 200" by simp
  from Cons.prems u obtain data where d: "json_body ?r = Some data" "repo_urls env data = Inr page"
    by (auto split: option.splits)
  from Cons.prems u have "pages_then_failure env hdrs (repo_urls env) (next_link ?r) None (trace ?st1) pages"
    by (simp add: log_event_def)
  from Cons.IH [OF this, of "repos @ page"] obtain st' where
    "get_profile_repos_loop env username hdrs (next_link ?r) None (repos @ page) ?st1 = Some (Return (repos @ page @ concat pages), st')"
    by auto
  with u ok d show ?case
    by (subst get_profile_repos_loop.simps) (simp add: requests_get_def)
qed

lemma list_repositories_loop_fatal:
  "hub_pages_then_failure env hdrs url_v (trace st) pages \<Longrightarrow>
     \<exists>st'. list_repositories_loop env hdrs url_v repos st = Some (Exit 1, st')"
proof (induction pages arbitrary: url_v repos st)
  case Nil
  then show ?case
    by (subst list_repositories_loop.simps) (auto simp: requests_get_def)
next
  case (Cons page pages)
  let ?rq = "get_request (fmt env url_v) hdrs None"
  let ?r = "http env (trace st) ?rq"
  let ?st1 = "log_event (Http ?rq) st"
  from Cons.prems have tr: "truthy url_v" and ok: "status_code ?r = 200" by simp_all
  from Cons.prems obtain data nxt where d: "json_body ?r = Some data" "result_names data = Inr page"
    "py_get data ''next'' JNull = Inr nxt"
    and rest: "hub_pages_then_failure env hdrs nxt (trace st @ [Http ?rq]) pages"
    by (auto split: option.splits sum.splits)
  from rest have "hub_pages_then_failure env hdrs nxt (trace ?st1) pages"
    by (simp add: log_event_def)
  from Cons.IH [OF this, of "repos @ page"] obtain st' where
    "list_repositories_loop env hdrs nxt (repos @ page) ?st1 = Some (Exit 1, st')"
    by auto
  with tr ok d show ?case
    by (subst list_repositories_loop.simps) (simp add: requests_get_def)
qed

lemma paged_http_first:
  "u \<in> {''https://api.github.com/user/repos'', ''https://api.github.com/user/orgs'',
         ''https://api.github.com/users/alice/repos''} \<Longrightarrow>
   http paged_env h (get_request u hdrs ps) =
     ok_json (JArr [JObj [(''full_name'', JStr ''alice/app''), (''login'', JStr ''acme'')]])
       [(''next'', [(''url'', ''https://api.github.com/next'')])]"
  by (simp add: paged_env_def quiet_env_def get_request_def)

lemma paged_http_next:
  "http paged_env h (get_request ''https://api.github.com/next'' hdrs ps) = not_found"
  by (simp add: paged_env_def quiet_env_def get_request_def)

lemma paged_http_hub:
  "http paged_env h (get_request ''https://hub.docker.com/v2/repositories/alice/'' hdrs ps) =
     ok_json (JObj [(''results'', JArr [JObj [(''name'', JStr ''app'')]]),
                    (''next'', JStr ''https://hub.docker.com/next'')]) []"
  "http paged_env h (get_request ''https://hub.docker.com/next'' hdrs ps) = not_found"
  by (simp_all add: paged_env_def quiet_env_def get_request_def)

lemma paged_path: "strip_chars ''/'' (urlparse_path paged_env ''https://github.com/alice'') = ''alice''"
  by (simp add: paged_env_def quiet_env_def url_path_def strip_chars_def strip_by_def lstrip_by_def rstrip_by_def)

subsection \<open>The profile's user name\<close>

lemma takeWhile_not_all: "\<forall>x \<in> set xs. P x \<Longrightarrow> takeWhile (\<lambda>x. \<not> P x) xs = []"
  by (cases xs) auto

lemma dropWhile_all: "\<forall>x \<in> set xs. P x \<Longrightarrow> dropWhile P xs = []"
  by (induction xs) auto

lemma strip_then_segment:
  fixes p :: "'a list"
  assumes nd: "\<forall>c \<in> set (dropWhile P (rev (dropWhile P p))). \<not> P c"
  shows "takeWhile (\<lambda>c. \<not> P c) (dropWhile P (rev p)) = dropWhile P (rev (dropWhile P p))"
proof -
  let ?a = "takeWhile P p"
  let ?b = "dropWhile P p"
  let ?d = "dropWhile P (rev ?b)"
  have p: "rev p = rev ?b @ rev ?a"
  proof -
    have "rev p = rev (?a @ ?b)" by (simp only: takeWhile_dropWhile_id)
    then show ?thesis by (simp only: rev_append)
  qed
  have a: "\<forall>c \<in> set (rev ?a). P c"
    by (auto dest: set_takeWhileD)
  show ?thesis
  proof (cases "?b = []")
    case True
    from p have "rev p = rev ?a" by (simp only: True rev.simps append_Nil)
    with a have e: "dropWhile P (rev p) = []" by (simp only: dropWhile_all)
    have d: "dropWhile P (rev (dropWhile P p)) = []" by (simp only: True rev.simps dropWhile.simps)
    show ?thesis by (simp only: d e takeWhile.simps)
  next
    case False
    then have h: "\<not> P (hd ?b)" by (rule hd_dropWhile)
    from False have m: "hd ?b \<in> set (rev ?b)" by simp
    from dropWhile_append1 [of "hd ?b" "rev ?b" P "rev ?a", OF m h]
    have "dropWhile P (rev ?b @ rev ?a) = ?d @ rev ?a" .
    then have 1: "dropWhile P (rev p) = ?d @ rev ?a" by (simp only: p)
    from nd have n: "\<And>x. x \<in> set ?d \<Longrightarrow> \<not> P x" by blast
    from takeWhile_append2 [of ?d "\<lambda>c. \<not> P c" "rev ?a", OF n]
    have 2: "takeWhile (\<lambda>c. \<not> P c) (?d @ rev ?a) = ?d @ takeWhile (\<lambda>c. \<not> P c) (rev ?a)" .
    from a have 3: "takeWhile (\<lambda>c. \<not> P c) (rev ?a) = []" by (rule takeWhile_not_all)
    show ?thesis by (simp only: 1 2 3 append_Nil2)
  qed
qed

lemma stripped_single_segment:
  assumes "CHR ''/'' \<notin> set (strip_chars ''/'' p)"
  shows "strip_chars ''/'' p = trailing_path_segment p"
proof -
  let ?sl = "\<lambda>c. c = CHR ''/''"
  have s: "strip_chars ''/'' p = rev (dropWhile ?sl (rev (dropWhile ?sl p)))"
    by (simp add: strip_chars_def strip_by_def lstrip_by_def rstrip_by_def)
  have t: "trailing_path_segment p = rev (takeWhile (\<lambda>c. \<not> ?sl c) (dropWhile ?sl (rev p)))"
    by (simp add: trailing_path_segment_def rstrip_chars_def rstrip_by_def)
  from assms have "\<forall>c \<in> set (dropWhile ?sl (rev (dropWhile ?sl p))). \<not> ?sl c"
    unfolding s by auto
  from strip_then_segment [of ?sl p, OF this]
  show ?thesis unfolding s t by (rule arg_cong [of _ _ rev, symmetric])
qed

lemma get_profile_repos_loop_trace:
  assumes "get_profile_repos_loop env username hdrs url_opt ps repos st = Some y"
  shows "\<exists>rest. trace (snd y) = trace st @ rest"
proof (rule get_profile_repos_loop.raw_induct
         [where P = "\<lambda>env username hdrs url_opt ps repos st y. \<exists>rest. trace (snd y) = trace st @ rest",
          OF _ assms], goal_cases)
  case (1 loop env username hdrs url_opt ps repos st y)
  show ?case
  proof (cases "url_opt = None \<or> url_opt = Some []")
    case True
    with 1(2) have "y = (Return repos, st)" by auto
    then show ?thesis by simp
  next
    case False
    then obtain u where u: "url_opt = Some u" "u \<noteq> []" by (cases url_opt) auto
    let ?st1 = "log_event (Http (get_request u hdrs ps)) st"
    from 1(2) u have
      "trace (snd y) = trace ?st1 \<or> (\<exists>u' ps' repos'. loop env username hdrs u' ps' repos' ?st1 = Some y)"
      by (auto simp: requests_get_def print_def split: option.splits if_splits sum.splits)
    then show ?thesis
    proof
      assume "trace (snd y) = trace ?st1"
      then show ?thesis by (simp add: log_event_def)
    next
      assume "\<exists>u' ps' repos'. loop env username hdrs u' ps' repos' ?st1 = Some y"
      then obtain u' ps' repos' where "loop env username hdrs u' ps' repos' ?st1 = Some y" by blast
      from 1(1) [OF this] obtain rest where "trace (snd y) = trace ?st1 @ rest" by blast
      then show ?thesis by (simp add: log_event_def)
    qed
  qed
qed

lemma get_profile_repos_loop_first_request:
  assumes "get_profile_repos_loop env username hdrs (Some u) ps repos st = Some y" and "u \<noteq> []"
  shows "\<exists>rest. trace (snd y) = trace st @ Http (get_request u hdrs ps) # rest"
proof -
  let ?st1 = "log_event (Http (get_request u hdrs ps)) st"
  from assms have
    "trace (snd y) = trace ?st1
     \<or> (\<exists>u' ps' repos'. get_profile_repos_loop env username hdrs u' ps' repos' ?st1 = Some y)"
    by (subst (asm) get_profile_repos_loop.simps)
       (auto simp: requests_get_def print_def split: option.splits if_splits sum.splits)
  then show ?thesis
  proof
    assume "trace (snd y) = trace ?st1"
    then show ?thesis by (simp add: log_event_def)
  next
    assume "\<exists>u' ps' repos'. get_profile_repos_loop env username hdrs u' ps' repos' ?st1 = Some y"
    then obtain u' ps' repos' where "get_profile_repos_loop env username hdrs u' ps' repos' ?st1 = Some y"
      by blast
    from get_profile_repos_loop_trace [OF this] show ?thesis
      by (auto simp: log_event_def)
  qed
qed

lemma quiet_path:
  "urlparse_path quiet_env ''https://github.com/alice/'' = ''/alice/''"
  "urlparse_path quiet_env ''https://github.com/orgs/acme'' = ''/orgs/acme''"
  by (simp_all add: quiet_env_def url_path_def)

lemma strip_slashes_examples:
  "strip_chars ''/'' ''/alice/'' = ''alice''"
  "strip_chars ''/'' ''/orgs/acme'' = ''orgs/acme''"
  "trailing_path_segment ''/alice/'' = ''alice''"
  "trailing_path_segment ''/orgs/acme'' = ''acme''"
  by (simp_all add: strip_chars_def rstrip_chars_def strip_by_def lstrip_by_def rstrip_by_def trailing_path_segment_def)

lemma get_profile_repos_quiet_alice:
  "get_profile_repos quiet_env ''https://github.com/alice/'' None st0 =
     Some (Return [],
       st0\<lparr>out := [''Failed to fetch repos for alice: 404''],
           trace := [Http (get_request ''https://api.github.com/users/alice/repos'' [] (Some [(''per_page'', ''100'')]))]\<rparr>)"
  unfolding get_profile_repos_def quiet_path strip_slashes_examples
  apply (subst get_profile_repos_loop.simps)
  apply (simp add: profile_headers_def requests_get_def quiet_env_def not_found_def log_event_def print_def st0_def
      str_int_def str_nat.simps digit_char_def)
  done

subsection \<open>The self-scan\<close>

lemma get_user_repos_loop_calls:
  assumes "get_user_repos_loop env hdrs url_opt ps repos st = Some y"
  shows "scanner_calls (trace (snd y)) = scanner_calls (trace st)"
proof (rule get_user_repos_loop.raw_induct
         [where P = "\<lambda>env hdrs url_opt ps repos st y. scanner_calls (trace (snd y)) = scanner_calls (trace st)",
          OF _ assms], goal_cases)
  case (1 loop env hdrs url_opt ps repos st y)
  show ?case
  proof (cases "url_opt = None \<or> url_opt = Some []")
    case True
    with 1(2) have "y = (Return repos, st)" by auto
    then show ?thesis by simp
  next
    case False
    then obtain u where u: "url_opt = Some u" "u \<noteq> []" by (cases url_opt) auto
    let ?st1 = "log_event (Http (get_request u hdrs ps)) st"
    from 1(2) u have
      "snd y = ?st1 \<or> (\<exists>u' ps' repos'. loop env hdrs u' ps' repos' ?st1 = Some y)"
      by (auto simp: requests_get_def split: option.splits if_splits sum.splits)
    then show ?thesis
    proof
      assume "snd y = ?st1"
      then show ?thesis by (simp add: log_event_def scanner_calls_append)
    next
      assume "\<exists>u' ps' repos'. loop env hdrs u' ps' repos' ?st1 = Some y"
      then obtain u' ps' repos' where "loop env hdrs u' ps' repos' ?st1 = Some y" by blast
      from 1(1) [OF this] show ?thesis by (simp add: log_event_def scanner_calls_append)
    qed
  qed
qed

lemma get_orgs_loop_calls:
  assumes "get_orgs_loop env hdrs url_opt orgs st = Some y"
  shows "scanner_calls (trace (snd y)) = scanner_calls (trace st)"
proof (rule get_orgs_loop.raw_induct
         [where P = "\<lambda>env hdrs url_opt orgs st y. scanner_calls (trace (snd y)) = scanner_calls (trace st)",
          OF _ assms], goal_cases)
  case (1 loop env hdrs url_opt orgs st y)
  show ?case
  proof (cases "url_opt = None \<or> url_opt = Some []")
    case True
    with 1(2) have "y = (Return orgs, st)" by auto
    then show ?thesis by simp
  next
    case False
    then obtain u where u: "url_opt = Some u" "u \<noteq> []" by (cases url_opt) auto
    let ?st1 = "log_event (Http (get_request u hdrs None)) st"
    from 1(2) u have
      "snd y = ?st1 \<or> (\<exists>u' orgs'. loop env hdrs u' orgs' ?st1 = Some y)"
      by (auto simp: requests_get_def split: option.splits if_splits sum.splits)
    then show ?thesis
    proof
      assume "snd y = ?st1"
      then show ?thesis by (simp add: log_event_def scanner_calls_append)
    next
      assume "\<exists>u' orgs'. loop env hdrs u' orgs' ?st1 = Some y"
      then obtain u' orgs' where "loop env hdrs u' orgs' ?st1 = Some y" by blast
      from 1(1) [OF this] show ?thesis by (simp add: log_event_def scanner_calls_append)
    qed
  qed
qed

lemma scan_loop_runs:
  assumes "\<forall>h cmd. \<exists>so se. subprocess_run env h cmd = Inr (so, se)"
  shows "\<exists>outs st'. scan_loop env items all_output st = (Return (all_output @ outs), st')
           \<and> length outs = length items
           \<and> scanner_calls (trace st') = scanner_calls (trace st) @ map snd items
           \<and> fs st' = fs st"
proof (induction items arbitrary: all_output st)
  case Nil
  then show ?case by simp
next
  case (Cons item items)
  obtain msg cmd where item: "item = (msg, cmd)" by (cases item)
  from assms obtain so se where r: "subprocess_run env (trace (print msg st)) cmd = Inr (so, se)"
    by blast
  let ?st1 = "log_event (Subprocess cmd) (print msg st)"
  from r have run: "run_trufflehog env cmd (print msg st) = (Return (so @ se), ?st1)"
    by (simp add: run_trufflehog_def)
  from Cons.IH [of "all_output @ [so @ se]" ?st1] obtain outs st' where
    l: "scan_loop env items (all_output @ [so @ se]) ?st1 = (Return ((all_output @ [so @ se]) @ outs), st')"
    and n: "length outs = length items"
    and c: "scanner_calls (trace st') = scanner_calls (trace ?st1) @ map snd items"
    and f: "fs st' = fs ?st1"
    by blast
  have "scan_loop env (item # items) all_output st = (Return (all_output @ ((so @ se) # outs)), st')"
    using run l by (simp add: item)
  moreover have "length ((so @ se) # outs) = length (item # items)" using n by simp
  moreover have "scanner_calls (trace st') = scanner_calls (trace st) @ map snd (item # items)"
    using c by (simp add: item log_event_def print_def scanner_calls_append)
  moreover have "fs st' = fs st" using f by (simp add: log_event_def print_def)
  ultimately show ?case by blast
qed

lemma scenario_A_http:
  "http scenario_A_env h (get_request ''https://api.github.com/user/repos'' hdrs ps) =
     ok_json (JArr [JObj [(''full_name'', JStr ''alice/zeta'')], JObj [(''full_name'', JStr ''alice/app'')]]) []"
  "http scenario_A_env h (get_request ''https://api.github.com/user/orgs'' hdrs ps) =
     ok_json (JArr [JObj [(''login'', JStr ''acme'')]]) []"
  by (simp_all add: scenario_A_env_def quiet_env_def get_request_def)

lemma scenario_A_user_repos:
  "get_user_repos scenario_A_env ''tok123'' st =
     Some (Return [''https://github.com/alice/zeta'', ''https://github.com/alice/app''],
           log_event (Http (get_request ''https://api.github.com/user/repos'' [(''Authorization'', ''token tok123'')]
                              (Some [(''per_page'', ''100''), (''type'', ''owner'')]))) st)"
  unfolding get_user_repos_def
  apply (subst get_user_repos_loop.simps)
  apply (simp add: requests_get_def scenario_A_http ok_json_def next_link_def repo_urls_def ebind_def fmt_def)
  apply (subst get_user_repos_loop.simps)
  apply simp
  done

lemma scenario_A_orgs:
  "get_orgs scenario_A_env ''tok123'' st =
     Some (Return [JStr ''acme''],
           log_event (Http (get_request ''https://api.github.com/user/orgs'' [(''Authorization'', ''token tok123'')] None)) st)"
  unfolding get_orgs_def
  apply (subst get_orgs_loop.simps)
  apply (simp add: requests_get_def scenario_A_http ok_json_def next_link_def org_logins_def ebind_def)
  apply (subst get_orgs_loop.simps)
  apply simp
  done

lemma scenario_A_sorted:
  "join [CHR 0x0A] (sort [''https://github.com/alice/zeta'', ''https://github.com/alice/app''])
     = ''https://github.com/alice/app'' @ [CHR 0x0A] @ ''https://github.com/alice/zeta''"
  by simp

lemma scenario_A_parts:
  "yaml_safe_load scenario_A_env ''github: [tok123]'' = Inr (JObj [(''github'', JArr [JStr ''tok123''])])"
  "subprocess_run scenario_A_env h cmd = Inr (''scanned'', [])"
  "json_loads scenario_A_env s = None"
  by (simp_all add: scenario_A_env_def quiet_env_def)

lemma scenario_A_main:
  "\<exists>st'. main scenario_A_env scenario_A_args scenario_A_state = Some (Return (), st')
     \<and> fs st' ''personal.txt'' = Some (''https://github.com/alice/app'' @ [CHR 0x0A] @ ''https://github.com/alice/zeta'')
     \<and> fs st' ''org.txt'' = Some ''acme''
     \<and> fs st' ''results.txt'' = Some (''scanned'' @ [CHR 0x0A] @ ''scanned'' @ [CHR 0x0A] @ ''scanned'')
     \<and> sheets st' ''output.xlsx'' = None
     \<and> scanner_calls (trace st')
        = [[''trufflehog'', ''github'', ''--org=acme'', ''--token=tok123'', ''--json''],
           [''trufflehog'', ''github'', ''--repo=https://github.com/alice/zeta'', ''--token=tok123'', ''--json''],
           [''trufflehog'', ''github'', ''--repo=https://github.com/alice/app'', ''--token=tok123'', ''--json'']]"
  by (simp add: main_def obind_def read_credentials_def scenario_A_state_def scenario_A_args_def
        scenario_A_parts conf_first_def main_github_modes_def scan_my_repos_and_orgs_def
        scenario_A_user_repos scenario_A_orgs as_strings_def run_trufflehog_def org_cmd_def repo_cmd_token_def
        main_write_results_def save_to_excel_github_def read_lines_def stripped_lines_def
        main_docker_modes_def given_def eval_defs)

subsection \<open>Tags and scan targets\<close>

lemma endswith_iff: "endswith s t = (\<exists>p. s = p @ t)"
proof
  assume "endswith s t"
  then have "s = take (length s - length t) s @ t"
    by (metis append_take_drop_id endswith_def)
  then show "\<exists>p. s = p @ t" ..
next
  assume "\<exists>p. s = p @ t"
  then show "endswith s t" by (auto simp: endswith_def)
qed

lemma skip_tag_denied:
  assumes "tag = JObj kvs" and "map_of kvs ''name'' = Some (JStr n)"
  shows "py_subscript tag ''name'' = Inr (JStr n)" and "skip_tag (JStr n) = Inr (tag_denied tag)"
  using assms by (simp_all add: tag_denied_def deny_list_def)

lemma tag_denied_shape:
  assumes "tag_denied tag"
  shows "\<exists>kvs n. tag = JObj kvs \<and> map_of kvs ''name'' = Some (JStr n)"
proof (cases tag)
  case (JObj kvs)
  show ?thesis
  proof (cases "map_of kvs ''name''")
    case None
    with assms JObj show ?thesis by (simp add: tag_denied_def)
  next
    case (Some v)
    with assms JObj show ?thesis by (cases v) (simp_all add: tag_denied_def)
  qed
qed (use assms in \<open>simp_all add: tag_denied_def\<close>)

lemma wf_tag_shape:
  assumes "wf_tag tag"
  shows "\<exists>kvs n. tag = JObj kvs \<and> map_of kvs ''name'' = Some (JStr n)
           \<and> (tag_denied tag
               \<or> (\<exists>imgs. dict_get kvs ''images'' (JArr []) = JArr imgs \<and> list_all wf_image imgs))"
proof (cases tag)
  case (JObj kvs)
  show ?thesis
  proof (cases "map_of kvs ''name''")
    case None
    with assms JObj show ?thesis by (simp add: wf_tag_def)
  next
    case (Some v)
    show ?thesis
    proof (cases v)
      case (JStr n)
      with assms JObj Some have
        d: "tag_denied tag \<or> (case dict_get kvs ''images'' (JArr []) of JArr imgs \<Rightarrow> list_all wf_image imgs | _ \<Rightarrow> False)"
        by (simp add: wf_tag_def)
      show ?thesis
      proof (cases "tag_denied tag")
        case True
        with JObj Some JStr show ?thesis by simp
      next
        case False
        with d have "case dict_get kvs ''images'' (JArr []) of JArr imgs \<Rightarrow> list_all wf_image imgs | _ \<Rightarrow> False"
          by simp
        then have "\<exists>imgs. dict_get kvs ''images'' (JArr []) = JArr imgs \<and> list_all wf_image imgs"
          by (cases "dict_get kvs ''images'' (JArr [])") simp_all
        with JObj Some JStr show ?thesis by simp
      qed
    qed (use assms JObj Some in \<open>simp_all add: wf_tag_def\<close>)
  qed
qed (use assms in \<open>simp_all add: wf_tag_def\<close>)

lemma main_tag_body_denied:
  assumes "tag_denied tag"
  shows "main_tag_body env full_repo tag df st = (Return df, st)"
proof -
  from tag_denied_shape [OF assms] obtain kvs n where t: "tag = JObj kvs" "map_of kvs ''name'' = Some (JStr n)"
    by blast
  from skip_tag_denied [OF t] assms show ?thesis
    by (simp add: main_tag_body_def)
qed

lemma for_each_filter_denied:
  "for_each (main_tag_body env full_repo) tags df st
     = for_each (main_tag_body env full_repo) (filter (\<lambda>t. \<not> tag_denied t) tags) df st"
proof (induction tags arbitrary: df st)
  case Nil
  show ?case by simp
next
  case (Cons tag tags)
  show ?case
  proof (cases "tag_denied tag")
    case True
    then show ?thesis by (simp add: main_tag_body_denied Cons.IH)
  next
    case False
    then show ?thesis by (simp add: Cons.IH split: prod.splits outcome.splits)
  qed
qed

lemma main_image_body_wf:
  assumes norm: "findings_normalizable env full_repo" and wf: "wf_image img"
  shows "\<exists>df' st'. main_image_body env full_repo img df st = (Return df', st')
           \<and> scanner_calls (trace st') = scanner_calls (trace st)
                @ [docker_cmd (full_repo @ ''@'' @ fmt env (image_digest img))]"
proof -
  from wf obtain kvs d where i: "img = JObj kvs" "map_of kvs ''digest'' = Some d"
    by (auto simp: wf_image_def split: json.splits)
  then have s: "py_subscript img ''digest'' = Inr d" and g: "image_digest img = d"
    by (simp_all add: image_digest_def dict_get_def)
  let ?ref = "full_repo @ ''@'' @ fmt env d"
  obtain findings st1 where sc: "scan_with_trufflehog env ?ref st = (findings, st1)"
    by (cases "scan_with_trufflehog env ?ref st")
  from norm obtain rows where "emap (parse_docker_finding full_repo) (fst (scan_with_trufflehog env ?ref st)) = Inr rows"
    unfolding findings_normalizable_def by blast
  with sc have e: "emap (parse_docker_finding full_repo) findings = Inr rows" by simp
  from s sc e have "main_image_body env full_repo img df st = (Return (df @ rows), log_event Sleep st1)"
    by (simp add: main_image_body_def)
  moreover from scan_with_trufflehog_trace [OF sc]
  have "scanner_calls (trace (log_event Sleep st1)) = scanner_calls (trace st) @ [docker_cmd ?ref]"
    by (simp add: log_event_def scanner_calls_append)
  ultimately show ?thesis unfolding g by blast
qed

lemma for_each_images_wf:
  assumes norm: "findings_normalizable env full_repo"
  shows "list_all wf_image imgs \<Longrightarrow>
         \<exists>df' st'. for_each (main_image_body env full_repo) imgs df st = (Return df', st')
           \<and> scanner_calls (trace st') = scanner_calls (trace st)
                @ map (\<lambda>img. docker_cmd (full_repo @ ''@'' @ fmt env (image_digest img))) imgs"
proof (induction imgs arbitrary: df st)
  case Nil
  show ?case by simp
next
  case (Cons img imgs)
  from Cons.prems have w: "wf_image img" and ws: "list_all wf_image imgs" by simp_all
  from main_image_body_wf [OF norm w, of df st] obtain df1 st1 where
    b: "main_image_body env full_repo img df st = (Return df1, st1)"
    and c: "scanner_calls (trace st1) = scanner_calls (trace st)
                @ [docker_cmd (full_repo @ ''@'' @ fmt env (image_digest img))]"
    by blast
  from Cons.IH [OF ws, of df1 st1] obtain df' st' where
    "for_each (main_image_body env full_repo) imgs df1 st1 = (Return df', st')"
    "scanner_calls (trace st') = scanner_calls (trace st1)
                @ map (\<lambda>img. docker_cmd (full_repo @ ''@'' @ fmt env (image_digest img))) imgs"
    by blast
  with b c show ?case by simp
qed

lemma main_tag_body_wf:
  assumes norm: "findings_normalizable env full_repo" and wf: "wf_tag tag"
  shows "\<exists>df' st'. main_tag_body env full_repo tag df st = (Return df', st')
           \<and> scanner_calls (trace st') = scanner_calls (trace st)
                @ map docker_cmd (tag_targets env full_repo tag)"
proof (cases "tag_denied tag")
  case True
  then show ?thesis by (simp add: main_tag_body_denied tag_targets_def)
next
  case False
  from wf_tag_shape [OF wf] False obtain kvs n imgs where
    t: "tag = JObj kvs" "map_of kvs ''name'' = Some (JStr n)"
    and im: "dict_get kvs ''images'' (JArr []) = JArr imgs" and ws: "list_all wf_image imgs"
    by blast
  from t im have ti: "tag_images tag = imgs" by (simp add: tag_images_def)
  from t im have it: "ebind (py_get tag ''images'' (JArr [])) py_iter = Inr imgs"
    by (simp add: ebind_def)
  from skip_tag_denied [OF t] False it
  have "main_tag_body env full_repo tag df st = for_each (main_image_body env full_repo) imgs df st"
    by (simp add: main_tag_body_def)
  with for_each_images_wf [OF norm ws, of df st] False ti show ?thesis
    by (simp add: tag_targets_def comp_def)
qed

lemma for_each_tags_wf:
  assumes norm: "findings_normalizable env full_repo"
  shows "list_all wf_tag tags \<Longrightarrow>
         \<exists>df' st'. for_each (main_tag_body env full_repo) tags df st = (Return df', st')
           \<and> scanner_calls (trace st') = scanner_calls (trace st)
                @ map docker_cmd (concat (map (tag_targets env full_repo) tags))"
proof (induction tags arbitrary: df st)
  case Nil
  show ?case by simp
next
  case (Cons tag tags)
  from Cons.prems have w: "wf_tag tag" and ws: "list_all wf_tag tags" by simp_all
  from main_tag_body_wf [OF norm w, of df st] obtain df1 st1 where
    b: "main_tag_body env full_repo tag df st = (Return df1, st1)"
    and c: "scanner_calls (trace st1) = scanner_calls (trace st) @ map docker_cmd (tag_targets env full_repo tag)"
    by blast
  from Cons.IH [OF ws, of df1 st1] obtain df' st' where
    "for_each (main_tag_body env full_repo) tags df1 st1 = (Return df', st')"
    "scanner_calls (trace st') = scanner_calls (trace st1)
                @ map docker_cmd (concat (map (tag_targets env full_repo) tags))"
    by blast
  with b c show ?case by simp
qed

lemma get_container_tags_served:
  assumes norm: "findings_normalizable env name"
  shows "tags_served env name page pages \<Longrightarrow> list_all wf_tag (concat pages) \<Longrightarrow>
         \<exists>df' st'. get_container_tags env (main_tag_body env name) name page df st = Some (Return df', st')
           \<and> scanner_calls (trace st') = scanner_calls (trace st)
                @ map docker_cmd (concat (map (tag_targets env name) (concat pages)))"
proof (induction pages arbitrary: page df st)
  case Nil
  then show ?case by simp
next
  case (Cons tags later)
  let ?rq = "get_request (dockerhub_tag_endpoint name page) [] None"
  let ?st1 = "log_event (Http ?rq) st"
  from Cons.prems(1) obtain kvs where
    jb: "json_body (http env (trace st) ?rq) = Some (JObj kvs)"
    and rs: "dict_get kvs ''results'' (JArr []) = JArr tags"
    and nx: "truthy (dict_get kvs ''next'' JNull) = (later \<noteq> [])"
    by auto
  from Cons.prems(2) have w: "list_all wf_tag tags" and ws: "list_all wf_tag (concat later)" by simp_all
  from jb have pg: "get_container_tag_page env name page st = (Inr (JObj kvs), ?st1)"
    by (simp add: get_container_tag_page_def requests_get_def)
  from rs have it: "ebind (py_get (JObj kvs) ''results'' (JArr [])) py_iter = Inr tags"
    by (simp add: ebind_def)
  from for_each_tags_wf [OF norm w, of df ?st1] obtain df1 st2 where
    fe: "for_each (main_tag_body env name) tags df ?st1 = (Return df1, st2)"
    and c: "scanner_calls (trace st2) = scanner_calls (trace st) @ map docker_cmd (concat (map (tag_targets env name) tags))"
    by (auto simp: log_event_def scanner_calls_append)
  show ?case
  proof (cases "later = []")
    case True
    with nx have "\<not> truthy (dict_get kvs ''next'' JNull)" by simp
    with pg it fe have "get_container_tags env (main_tag_body env name) name page df st = Some (Return df1, st2)"
      by (subst get_container_tags.simps) simp
    with c True show ?thesis by simp
  next
    case False
    with nx have tr: "truthy (dict_get kvs ''next'' JNull)" by simp
    from Cons.prems(1) False have "tags_served env name (page + 1) later" by simp
    from Cons.IH [OF this ws, of df1 st2] obtain df' st' where
      r: "get_container_tags env (main_tag_body env name) name (page + 1) df1 st2 = Some (Return df', st')"
      and c2: "scanner_calls (trace st') = scanner_calls (trace st2)
                @ map docker_cmd (concat (map (tag_targets env name) (concat later)))"
      by blast
    from pg it fe tr r have "get_container_tags env (main_tag_body env name) name page df st = Some (Return df', st')"
      by (subst get_container_tags.simps) simp
    with c c2 show ?thesis by simp
  qed
qed

lemma main_repo_body_latest:
  "\<exists>res st'. main_repo_body env False full_repo df st = Some (res, st')
      \<and> scanner_calls (trace st') = scanner_calls (trace st) @ [docker_cmd (full_repo @ '':latest'')]
      \<and> requests_of (trace st') = requests_of (trace st)"
proof -
  let ?st0 = "print (CHR 0x0A # ''[+] Scanning repository: '' @ full_repo) st"
  obtain findings st1 where sc: "scan_with_trufflehog env (full_repo @ '':latest'') ?st0 = (findings, st1)"
    by (cases "scan_with_trufflehog env (full_repo @ '':latest'') ?st0")
  from scan_with_trufflehog_trace [OF sc]
  have t: "trace st1 = trace st @ [Subprocess (docker_cmd (full_repo @ '':latest''))]"
    by (simp add: print_def)
  from sc have "main_repo_body env False full_repo df st =
      Some (case emap (parse_docker_finding full_repo) findings of
              Inl e \<Rightarrow> (Raise e, st1) | Inr rows \<Rightarrow> (Return (df @ rows), st1))"
    by (simp add: main_repo_body_def split: sum.splits)
  with t show ?thesis
    by (cases "emap (parse_docker_finding full_repo) findings")
       (simp_all add: scanner_calls_append requests_of_append)
qed

lemma scenario_B_findings:
  "fst (scan_with_trufflehog scenario_B_env image_ref st)
     = (if image_ref = ''alice/app@sha256:aaa'' \<or> image_ref = ''alice/app:latest'' then [finding_B] else [])"
  by (simp add: scan_with_trufflehog_def scenario_B_env_def finding_line_def eval_defs)

lemma scenario_B_normalizable: "findings_normalizable scenario_B_env ''alice/app''"
  unfolding findings_normalizable_def scenario_B_findings
  by (simp add: parse_finding_B)

lemma scenario_B_tags_page:
  "page = 1 \<Longrightarrow>
   http scenario_B_env h (get_request (dockerhub_tag_endpoint ''alice/app'' page) [] None)
     = ok_json (JObj [(''results'', JArr [tag_v1, tag_v1_sig]), (''next'', JNull)]) []"
  by (simp add: scenario_B_env_def quiet_env_def get_request_def dockerhub_tag_endpoint_def
        str_nat.simps digit_char_def)

lemma scenario_B_served: "tags_served scenario_B_env ''alice/app'' 1 [[tag_v1, tag_v1_sig]]"
  by (simp add: scenario_B_tags_page ok_json_def dict_get_def)

lemma scenario_B_tags:
  "list_all wf_tag [tag_v1, tag_v1_sig]"
  "tag_denied tag_v1_sig"
  "\<not> tag_denied tag_v1"
  "tag_targets scenario_B_env ''alice/app'' tag_v1 = [''alice/app@sha256:aaa'']"
  "tag_targets scenario_B_env ''alice/app'' tag_v1_sig = []"
  by (simp_all add: wf_tag_def wf_image_def tag_denied_def tag_targets_def tag_images_def image_digest_def
        tag_v1_def tag_v1_sig_def endswith_def dict_get_def fmt_def)

lemma scenario_B_repo:
  "main_repo_body scenario_B_env True ''alice/app'' df st =
     Some (Return (df @ [row_B]),
       st\<lparr>out := out st @ [CHR 0x0A # ''[+] Scanning repository: alice/app''],
          trace := trace st @ [Http (get_request (dockerhub_tag_endpoint ''alice/app'' 1) [] None),
                               Subprocess (docker_cmd ''alice/app@sha256:aaa''), Sleep]\<rparr>)"
  unfolding main_repo_body_def
  apply (simp add: Let_def)
  apply (subst get_container_tags.simps)
  apply (simp add: get_container_tag_page_def requests_get_def scenario_B_tags_page ok_json_def
      ebind_def dict_get_def main_tag_body_def tag_v1_def tag_v1_sig_def deny_list_def endswith_def
      main_image_body_def scan_B_digest parse_finding_B fmt_def log_event_def print_def)
  done

lemma scenario_B_parts:
  "yaml_safe_load scenario_B_env ''docker: [alice:secret]'' = Inr (JObj [(''docker'', JArr [JStr ''alice:secret''])])"
  "http scenario_B_env h (post_request ''https://hub.docker.com/v2/users/login/'' hdrs payload)
     = ok_json (JObj [(''token'', JStr ''jwt'')]) []"
  by (simp_all add: scenario_B_env_def quiet_env_def post_request_def)

lemma scenario_B_main:
  "\<exists>st'. main scenario_B_env scenario_B_args scenario_B_state = Some (Return (), st')
     \<and> scanner_calls (trace st') = [docker_cmd ''alice/app@sha256:aaa'']
     \<and> fs st' ''image.txt'' = Some (''alice/app'' @ [CHR 0x0A])
     \<and> sheets st' ''output.xlsx'' = Some [row_B]"
  by (simp add: main_def obind_def read_credentials_def scenario_B_state_def scenario_B_args_def
        scenario_B_parts conf_first_def split_colon_def main_github_modes_def main_write_results_def
        main_docker_modes_def main_docker_repos_def given_def get_docker_token_def requests_post_def
        read_lines_def stripped_lines_def scenario_B_repo save_to_excel_docker_def
        ok_json_def st0_def ebind_def dict_get_def log_event_def print_def write_file_def to_excel_def
        strip_def strip_by_def lstrip_by_def rstrip_by_def is_space_def str_nat.simps digit_char_def)

section \<open>The claims of the specification\<close>

text \<open>
  Claim C1, as the code has it. When a listing has fetched some pages and the next
  request is answered with a status other than 200, the three GitHub listings
  (\<open>get_user_repos\<close>, \<open>get_orgs\<close>, \<open>get_profile_repos\<close>) return the concatenation of the
  pages fetched before that response, and the process goes on. The Docker Hub
  repository listing (\<open>list_repositories\<close>) does not: it prints the error and ends the
  process with \<open>sys.exit(1)\<close>, whatever it had fetched.
\<close>

theorem listing_failure:
  "(pages_then_failure env [(''Authorization'', ''token '' @ token)] (repo_urls env)
        (Some ''https://api.github.com/user/repos'')
        (Some [(''per_page'', ''100''), (''type'', ''owner'')]) (trace st) repo_pages
      \<longrightarrow> (\<exists>st'. get_user_repos env token st = Some (Return (concat repo_pages), st')))
   \<and> (pages_then_failure env [(''Authorization'', ''token '' @ token)] org_logins
        (Some ''https://api.github.com/user/orgs'') None (trace st) org_pages
      \<longrightarrow> (\<exists>st'. get_orgs env token st = Some (Return (concat org_pages), st')))
   \<and> (strip_chars ''/'' (urlparse_path env profile_url) \<noteq> []
      \<longrightarrow> pages_then_failure env (profile_headers tok) (repo_urls env)
        (Some (''https://api.github.com/users/'' @ strip_chars ''/'' (urlparse_path env profile_url) @ ''/repos''))
        (Some [(''per_page'', ''100'')]) (trace st) profile_pages
      \<longrightarrow> (\<exists>st'. get_profile_repos env profile_url tok st = Some (Return (concat profile_pages), st')))
   \<and> (hub_pages_then_failure env [(''Authorization'', ''JWT '' @ fmt env jwt)]
        (JStr (''https://hub.docker.com/v2/repositories/'' @ username @ ''/'')) (trace st) hub_pages
      \<longrightarrow> (\<exists>st'. list_repositories env username jwt st = Some (Exit 1, st')))"
  using get_user_repos_loop_partial [of env _ _ _ st repo_pages "[]"]
        get_orgs_loop_partial [of env _ _ st org_pages "[]"]
        get_profile_repos_loop_partial [of env _ _ _ st profile_pages _ "[]"]
        list_repositories_loop_fatal [of env _ _ st hub_pages "[]"]
  by (auto simp: get_user_repos_def get_orgs_def get_profile_repos_def list_repositories_def Let_def)

text \<open>The theorem in a world where every listing has one page and then fails.\<close>

theorem listing_failure_witness:
  "(\<exists>st'. get_user_repos paged_env ''tok123'' st0 = Some (Return [''https://github.com/alice/app''], st'))
   \<and> (\<exists>st'. get_orgs paged_env ''tok123'' st0 = Some (Return [JStr ''acme''], st'))
   \<and> (\<exists>st'. get_profile_repos paged_env ''https://github.com/alice'' None st0
               = Some (Return [''https://github.com/alice/app''], st'))
   \<and> (\<exists>st'. list_repositories paged_env ''alice'' (JStr ''jwt'') st0 = Some (Exit 1, st'))"
proof -
  have h1: "pages_then_failure paged_env [(''Authorization'', ''token '' @ ''tok123'')] (repo_urls paged_env)
        (Some ''https://api.github.com/user/repos'')
        (Some [(''per_page'', ''100''), (''type'', ''owner'')]) (trace st0) [[''https://github.com/alice/app'']]"
    by (simp add: paged_http_first paged_http_next ok_json_def not_found_def next_link_def
          repo_urls_def ebind_def fmt_def)
  have h2: "pages_then_failure paged_env [(''Authorization'', ''token '' @ ''tok123'')] org_logins
        (Some ''https://api.github.com/user/orgs'') None (trace st0) [[JStr ''acme'']]"
    by (simp add: paged_http_first paged_http_next ok_json_def not_found_def next_link_def
          org_logins_def ebind_def)
  have h3: "strip_chars ''/'' (urlparse_path paged_env ''https://github.com/alice'') \<noteq> []"
    by (simp add: paged_path)
  have h4: "pages_then_failure paged_env (profile_headers None) (repo_urls paged_env)
        (Some (''https://api.github.com/users/'' @ strip_chars ''/'' (urlparse_path paged_env ''https://github.com/alice'') @ ''/repos''))
        (Some [(''per_page'', ''100'')]) (trace st0) [[''https://github.com/alice/app'']]"
    by (simp add: paged_path paged_http_first paged_http_next ok_json_def not_found_def next_link_def
          repo_urls_def ebind_def fmt_def)
  have h5: "hub_pages_then_failure paged_env [(''Authorization'', ''JWT '' @ fmt paged_env (JStr ''jwt''))]
        (JStr (''https://hub.docker.com/v2/repositories/'' @ ''alice'' @ ''/'')) (trace st0) [[JStr ''app'']]"
    by (simp add: paged_http_hub ok_json_def not_found_def result_names_def ebind_def fmt_def dict_get_def)
  from listing_failure [of paged_env "''tok123''" st0 "[[''https://github.com/alice/app'']]" "[[JStr ''acme'']]"
         "''https://github.com/alice''" None "[[''https://github.com/alice/app'']]" "JStr ''jwt''" "''alice''" "[[JStr ''app'']]"]
       h1 h2 h3 h4 h5
  show ?thesis by simp
qed

text \<open>
  The claim as the spec words it fails for the Docker Hub repository listing: after one
  page with the repository \<open>app\<close>, a 404 for the next page ends the process with exit
  status 1; the page fetched is not returned.
\<close>

theorem listing_failure_counterexample:
  "list_repositories paged_env ''alice'' (JStr ''jwt'') st0 =
     Some (Exit 1,
       st0\<lparr>out := [''Error fetching repositories: 404 Not Found''],
           trace := [Http (get_request ''https://hub.docker.com/v2/repositories/alice/'' [(''Authorization'', ''JWT jwt'')] None),
                     Http (get_request ''https://hub.docker.com/next'' [(''Authorization'', ''JWT jwt'')] None)]\<rparr>)"
  unfolding list_repositories_def
  apply (subst list_repositories_loop.simps)
  apply (simp add: requests_get_def paged_http_hub fmt_def ok_json_def result_names_def ebind_def dict_get_def)
  apply (subst list_repositories_loop.simps)
  apply (simp add: requests_get_def paged_http_hub fmt_def not_found_def log_event_def print_def st0_def
      str_int_def str_nat.simps digit_char_def)
  done

text \<open>
  Claim C2, as the code has it. The two invokers differ. \<open>run_trufflehog\<close> (the GitHub
  modes) ends the process with \<open>sys.exit(1)\<close> when the binary is not found, and handles no
  other exception: it leaves the function. \<open>scan_with_trufflehog\<close> (the Docker modes)
  handles every exception of the call, the missing binary included: it prints a line
  naming the image and the error and returns no findings, and the loop over the
  repositories goes on to the next target, so that even when every scan fails every
  target is tried and the loop returns.
\<close>

theorem scanner_exceptions:
  "(subprocess_run env (trace st) cmd = Inl (FileNotFoundError, msg) \<longrightarrow>
      run_trufflehog env cmd st
        = (Exit 1, print ''Error: trufflehog not found. Install it with: pip install trufflehog''
                     (log_event (Subprocess cmd) st)))
   \<and> (subprocess_run env (trace st) cmd = Inl (e, msg) \<longrightarrow> e \<noteq> FileNotFoundError \<longrightarrow>
      run_trufflehog env cmd st = (Raise e, log_event (Subprocess cmd) st))
   \<and> (subprocess_run env (trace st) (docker_cmd image_ref) = Inl (e, msg) \<longrightarrow>
      scan_with_trufflehog env image_ref st
        = ([], print (''Error scanning '' @ image_ref @ '': '' @ msg) (log_event (Subprocess (docker_cmd image_ref)) st)))
   \<and> ((\<forall>h c. \<exists>e msg. subprocess_run env h c = Inl (e, msg)) \<longrightarrow>
      (\<exists>st'. main_repos_loop env False repos df st = Some (Return df, st')
           \<and> scanner_calls (trace st') = scanner_calls (trace st) @ map (\<lambda>r. docker_cmd (r @ '':latest'')) repos))"
  using main_repos_loop_all_fail [of env repos df st]
  by (auto simp: run_trufflehog_def scan_with_trufflehog_def)

text \<open>The theorem in a world without the binary and in one where the binary may not be
  executed.\<close>

theorem scanner_exceptions_witness:
  "run_trufflehog no_scanner_env (snd (repo_cmd ''https://github.com/alice/app'')) st0
     = (Exit 1, st0\<lparr>out := [''Error: trufflehog not found. Install it with: pip install trufflehog''],
                    trace := [Subprocess (snd (repo_cmd ''https://github.com/alice/app''))]\<rparr>)
   \<and> run_trufflehog denied_env (snd (repo_cmd ''https://github.com/alice/app'')) st0
     = (Raise PermissionError, st0\<lparr>trace := [Subprocess (snd (repo_cmd ''https://github.com/alice/app''))]\<rparr>)
   \<and> scan_with_trufflehog denied_env ''alice/app:latest'' st0
     = ([], st0\<lparr>out := [''Error scanning alice/app:latest: Permission denied''],
               trace := [Subprocess (docker_cmd ''alice/app:latest'')]\<rparr>)
   \<and> (\<exists>st'. main_repos_loop denied_env False [''alice/app'', ''alice/web''] [] st0 = Some (Return [], st')
         \<and> scanner_calls (trace st') = [docker_cmd ''alice/app:latest'', docker_cmd ''alice/web:latest''])"
proof -
  let ?cmd = "snd (repo_cmd ''https://github.com/alice/app'')"
  have h1: "subprocess_run no_scanner_env (trace st0) ?cmd = Inl (FileNotFoundError, ''No such file or directory'')"
    by (simp add: no_scanner_env_def quiet_env_def)
  have h2: "subprocess_run denied_env (trace st0) ?cmd = Inl (PermissionError, ''Permission denied'')"
    by (simp add: denied_env_def quiet_env_def)
  have h3: "subprocess_run denied_env (trace st0) (docker_cmd ''alice/app:latest'') = Inl (PermissionError, ''Permission denied'')"
    by (simp add: denied_env_def quiet_env_def)
  have h4: "\<forall>h c. \<exists>e msg. subprocess_run denied_env h c = Inl (e, msg)"
    by (simp add: denied_env_def quiet_env_def)
  from scanner_exceptions [of no_scanner_env st0 ?cmd "''No such file or directory''"] h1
  have a: "run_trufflehog no_scanner_env ?cmd st0
        = (Exit 1, print ''Error: trufflehog not found. Install it with: pip install trufflehog''
                     (log_event (Subprocess ?cmd) st0))"
    by blast
  from scanner_exceptions [of denied_env st0 ?cmd "''Permission denied''" PermissionError "''alice/app:latest''"
                              "[''alice/app'', ''alice/web'']" "[]"] h2 h3 h4
  have b: "run_trufflehog denied_env ?cmd st0 = (Raise PermissionError, log_event (Subprocess ?cmd) st0)"
    and c: "scan_with_trufflehog denied_env ''alice/app:latest'' st0
        = ([], print (''Error scanning '' @ ''alice/app:latest'' @ '': '' @ ''Permission denied'')
                 (log_event (Subprocess (docker_cmd ''alice/app:latest'')) st0))"
    and d: "\<exists>st'. main_repos_loop denied_env False [''alice/app'', ''alice/web''] [] st0 = Some (Return [], st')
           \<and> scanner_calls (trace st') = scanner_calls (trace st0) @ map (\<lambda>r. docker_cmd (r @ '':latest'')) [''alice/app'', ''alice/web'']"
    by blast+
  from a b c d show ?thesis
    by (simp add: print_def log_event_def st0_def)
qed

text \<open>
  The claim as the spec words it fails in both modes. With the binary missing, a Docker
  scan returns no findings and the loop scans the next repository: the process is not
  ended. With another exception (here \<open>PermissionError\<close>), the GitHub scanning loop is left
  by the exception at the first target, and the second target is never scanned.
\<close>

theorem scanner_exceptions_counterexample:
  "scan_with_trufflehog no_scanner_env ''alice/app:latest'' st0
     = ([], st0\<lparr>out := [''Error scanning alice/app:latest: No such file or directory''],
               trace := [Subprocess (docker_cmd ''alice/app:latest'')]\<rparr>)
   \<and> main_repos_loop no_scanner_env False [''alice/app'', ''alice/web''] [] st0
     = Some (Return [],
         st0\<lparr>out := [CHR 0x0A # ''[+] Scanning repository: alice/app'',
                     ''Error scanning alice/app:latest: No such file or directory'',
                     CHR 0x0A # ''[+] Scanning repository: alice/web'',
                     ''Error scanning alice/web:latest: No such file or directory''],
             trace := [Subprocess (docker_cmd ''alice/app:latest''), Subprocess (docker_cmd ''alice/web:latest'')]\<rparr>)
   \<and> scan_loop denied_env [repo_cmd ''https://github.com/alice/app'', repo_cmd ''https://github.com/alice/web''] [] st0
     = (Raise PermissionError,
         st0\<lparr>out := [''Scanning repository: https://github.com/alice/app''],
             trace := [Subprocess (snd (repo_cmd ''https://github.com/alice/app''))]\<rparr>)"
  by (simp add: scan_with_trufflehog_def main_repo_body_def obind_def run_trufflehog_def repo_cmd_def
        no_scanner_env_def denied_env_def quiet_env_def st0_def print_def log_event_def docker_cmd_def)

text \<open>
  Claim C3. \<open>skip_tag\<close> is true of exactly the names that end in \<open>.sig\<close> or \<open>.enc\<close>. In the
  loop of \<open>main\<close> over the tags, a tag with such a name runs no scan and leaves the state
  as it is, so a listing gives the same run with these tags left out; in a whole run with
  \<open>--all-tag\<close>, over tags served in pages, every scanner invocation is for an image
  digest listed by a tag whose name does not end so. Without \<open>--all-tag\<close> the tags are
  not requested at all: the one invocation is for \<open>full_repo:latest\<close>.
\<close>

theorem denied_tags_are_never_scanned:
  "skip_tag (JStr tag_name) = Inr (endswith tag_name ''.sig'' \<or> endswith tag_name ''.enc'')
   \<and> endswith tag_name ending = (\<exists>p. tag_name = p @ ending)
   \<and> (tag_denied tag \<longrightarrow> main_tag_body env full_repo tag df st = (Return df, st))
   \<and> for_each (main_tag_body env full_repo) tags df st
       = for_each (main_tag_body env full_repo) (filter (\<lambda>t. \<not> tag_denied t) tags) df st
   \<and> (findings_normalizable env full_repo \<longrightarrow> tags_served env full_repo 1 pages
        \<longrightarrow> list_all wf_tag (concat pages)
        \<longrightarrow> (\<exists>df' st' calls.
               main_repo_body env True full_repo df st = Some (Return df', st')
             \<and> scanner_calls (trace st') = scanner_calls (trace st) @ calls
             \<and> (\<forall>c \<in> set calls. \<exists>t \<in> set (concat pages). \<not> tag_denied t
                    \<and> (\<exists>img \<in> set (tag_images t).
                          c = docker_cmd (full_repo @ ''@'' @ fmt env (image_digest img))))))
   \<and> (\<exists>res st'. main_repo_body env False full_repo df st = Some (res, st')
         \<and> scanner_calls (trace st') = scanner_calls (trace st) @ [docker_cmd (full_repo @ '':latest'')]
         \<and> requests_of (trace st') = requests_of (trace st))"
proof (intro conjI impI)
  show "skip_tag (JStr tag_name) = Inr (endswith tag_name ''.sig'' \<or> endswith tag_name ''.enc'')"
    by (simp add: deny_list_def)
  show "endswith tag_name ending = (\<exists>p. tag_name = p @ ending)"
    by (rule endswith_iff)
  show "for_each (main_tag_body env full_repo) tags df st
       = for_each (main_tag_body env full_repo) (filter (\<lambda>t. \<not> tag_denied t) tags) df st"
    by (rule for_each_filter_denied)
  show "\<exists>res st'. main_repo_body env False full_repo df st = Some (res, st')
         \<and> scanner_calls (trace st') = scanner_calls (trace st) @ [docker_cmd (full_repo @ '':latest'')]
         \<and> requests_of (trace st') = requests_of (trace st)"
    by (rule main_repo_body_latest)
next
  assume "tag_denied tag"
  then show "main_tag_body env full_repo tag df st = (Return df, st)"
    by (rule main_tag_body_denied)
next
  let ?st0 = "print (CHR 0x0A # ''[+] Scanning repository: '' @ full_repo) st"
  let ?calls = "map docker_cmd (concat (map (tag_targets env full_repo) (concat pages)))"
  assume "findings_normalizable env full_repo" "tags_served env full_repo 1 pages"
    "list_all wf_tag (concat pages)"
  from get_container_tags_served [OF this, of df ?st0] obtain df' st' where
    r: "main_repo_body env True full_repo df st = Some (Return df', st')"
    and c: "scanner_calls (trace st') = scanner_calls (trace st) @ ?calls"
    by (auto simp: main_repo_body_def print_def)
  have "\<forall>c \<in> set ?calls. \<exists>t \<in> set (concat pages). \<not> tag_denied t
          \<and> (\<exists>img \<in> set (tag_images t). c = docker_cmd (full_repo @ ''@'' @ fmt env (image_digest img)))"
    by (auto simp: tag_targets_def split: if_splits)
  with r c show "\<exists>df' st' calls.
               main_repo_body env True full_repo df st = Some (Return df', st')
             \<and> scanner_calls (trace st') = scanner_calls (trace st) @ calls
             \<and> (\<forall>c \<in> set calls. \<exists>t \<in> set (concat pages). \<not> tag_denied t
                    \<and> (\<exists>img \<in> set (tag_images t).
                          c = docker_cmd (full_repo @ ''@'' @ fmt env (image_digest img))))"
    by blast
qed

text \<open>The theorem in scenario B: \<open>v1.sig\<close> is passed over, and its digest \<open>sha256:bbb\<close>
  is never given to the scanner.\<close>

theorem denied_tags_are_never_scanned_witness:
  "skip_tag (JStr ''v1.sig'') = Inr True
   \<and> skip_tag (JStr ''v1'') = Inr False
   \<and> main_tag_body scenario_B_env ''alice/app'' tag_v1_sig [] st0 = (Return [], st0)
   \<and> for_each (main_tag_body scenario_B_env ''alice/app'') [tag_v1, tag_v1_sig] [] st0
       = for_each (main_tag_body scenario_B_env ''alice/app'') [tag_v1] [] st0
   \<and> (\<exists>df' st'. main_repo_body scenario_B_env True ''alice/app'' [] st0 = Some (Return df', st')
         \<and> scanner_calls (trace st') = [docker_cmd ''alice/app@sha256:aaa'']
         \<and> docker_cmd ''alice/app@sha256:bbb'' \<notin> set (scanner_calls (trace st')))
   \<and> (\<exists>res st'. main_repo_body scenario_B_env False ''alice/app'' [] st0 = Some (res, st')
         \<and> scanner_calls (trace st') = [docker_cmd ''alice/app:latest'']
         \<and> requests_of (trace st') = [])"
proof -
  have w: "list_all wf_tag (concat [[tag_v1, tag_v1_sig]])"
    using scenario_B_tags(1) by simp
  note t = denied_tags_are_never_scanned
  have a: "skip_tag (JStr ''v1.sig'') = Inr (endswith ''v1.sig'' ''.sig'' \<or> endswith ''v1.sig'' ''.enc'')"
    using t [of "''v1.sig''"] by blast
  have b: "skip_tag (JStr ''v1'') = Inr (endswith ''v1'' ''.sig'' \<or> endswith ''v1'' ''.enc'')"
    using t [of "''v1''"] by blast
  have 1: "skip_tag (JStr ''v1.sig'') = Inr True" "skip_tag (JStr ''v1'') = Inr False"
    unfolding a b by (simp_all add: endswith_def)
  have 2: "main_tag_body scenario_B_env ''alice/app'' tag_v1_sig [] st0 = (Return [], st0)"
    using t [of _ _ tag_v1_sig scenario_B_env "''alice/app''" "[]" st0] scenario_B_tags(2) by blast
  have 3: "for_each (main_tag_body scenario_B_env ''alice/app'') [tag_v1, tag_v1_sig] [] st0
       = for_each (main_tag_body scenario_B_env ''alice/app'') [tag_v1] [] st0"
    using t [of _ _ _ scenario_B_env "''alice/app''" "[]" st0 "[tag_v1, tag_v1_sig]"] scenario_B_tags(2,3)
    by simp
  have 4: "\<exists>res st'. main_repo_body scenario_B_env False ''alice/app'' [] st0 = Some (res, st')
         \<and> scanner_calls (trace st') = [docker_cmd ''alice/app:latest'']
         \<and> requests_of (trace st') = []"
    using t [of _ _ _ scenario_B_env "''alice/app''" "[]" st0] by (simp add: st0_def)
  have 5: "\<exists>df' st'. main_repo_body scenario_B_env True ''alice/app'' [] st0 = Some (Return df', st')
         \<and> scanner_calls (trace st') = [docker_cmd ''alice/app@sha256:aaa'']
         \<and> docker_cmd ''alice/app@sha256:bbb'' \<notin> set (scanner_calls (trace st'))"
    by (simp add: scenario_B_repo st0_def docker_cmd_def)
  from 1 2 3 4 5 show ?thesis by blast
qed

text \<open>
  Claim C4, as the code has it. The user name \<open>get_profile_repos\<close> puts into its first
  request is the whole path of the profile URL with the slashes at both ends taken off:
  every run that returns with a non-empty user name starts with the request
  \<open>https://api.github.com/users/<name>/repos\<close> for that name. The name is the trailing
  path segment whenever it contains no slash, that is, when the path has one segment.
\<close>

theorem profile_username_is_stripped_path:
  "(get_profile_repos env profile_url token st = Some (res, st')
      \<longrightarrow> strip_chars ''/'' (urlparse_path env profile_url) \<noteq> []
      \<longrightarrow> (\<exists>rest. trace st' = trace st
              @ Http (get_request
                   (''https://api.github.com/users/'' @ strip_chars ''/'' (urlparse_path env profile_url) @ ''/repos'')
                   (profile_headers token) (Some [(''per_page'', ''100'')])) # rest))
   \<and> (CHR ''/'' \<notin> set (strip_chars ''/'' (urlparse_path env profile_url))
      \<longrightarrow> strip_chars ''/'' (urlparse_path env profile_url) = trailing_path_segment (urlparse_path env profile_url))"
  using get_profile_repos_loop_first_request
          [of env "strip_chars ''/'' (urlparse_path env profile_url)" "profile_headers token"
              "''https://api.github.com/users/'' @ strip_chars ''/'' (urlparse_path env profile_url) @ ''/repos''"
              "Some [(''per_page'', ''100'')]" "[]" st "(res, st')"]
        stripped_single_segment [of "urlparse_path env profile_url"]
  by (auto simp: get_profile_repos_def Let_def)

text \<open>The theorem on the profile \<open>https://github.com/alice/\<close>, in the world that answers
  404.\<close>

theorem profile_username_is_stripped_path_witness:
  "get_profile_repos quiet_env ''https://github.com/alice/'' None st0 =
     Some (Return [],
       st0\<lparr>out := [''Failed to fetch repos for alice: 404''],
           trace := [Http (get_request ''https://api.github.com/users/alice/repos'' [] (Some [(''per_page'', ''100'')]))]\<rparr>)
   \<and> strip_chars ''/'' (urlparse_path quiet_env ''https://github.com/alice/'') = ''alice''
   \<and> trailing_path_segment (urlparse_path quiet_env ''https://github.com/alice/'') = ''alice''"
  using profile_username_is_stripped_path
          [of quiet_env "''https://github.com/alice/''" None st0 "Return []"
              "st0\<lparr>out := [''Failed to fetch repos for alice: 404''],
                   trace := [Http (get_request ''https://api.github.com/users/alice/repos'' [] (Some [(''per_page'', ''100'')]))]\<rparr>"]
        get_profile_repos_quiet_alice
  by (simp add: quiet_path strip_slashes_examples)

text \<open>
  The claim as the spec words it fails on a path of two segments: for
  \<open>https://github.com/orgs/acme\<close> the request names the user \<open>orgs/acme\<close>, while the
  trailing path segment is \<open>acme\<close>.
\<close>

theorem profile_username_counterexample:
  "get_profile_repos quiet_env ''https://github.com/orgs/acme'' None st0 =
     Some (Return [],
       st0\<lparr>out := [''Failed to fetch repos for orgs/acme: 404''],
           trace := [Http (get_request ''https://api.github.com/users/orgs/acme/repos'' [] (Some [(''per_page'', ''100'')]))]\<rparr>)
   \<and> trailing_path_segment (urlparse_path quiet_env ''https://github.com/orgs/acme'') = ''acme''
   \<and> ''https://api.github.com/users/orgs/acme/repos'' \<noteq> ''https://api.github.com/users/acme/repos''"
  unfolding get_profile_repos_def quiet_path strip_slashes_examples
  apply (subst get_profile_repos_loop.simps)
  apply (simp add: profile_headers_def requests_get_def quiet_env_def not_found_def log_event_def print_def st0_def
      str_int_def str_nat.simps digit_char_def)
  done

text \<open>
  Claim C5. With \<open>--all-tag\<close>, when Docker Hub serves the repository's tags in pages of
  well-formed tag records and the findings can be normalized, the scan of the repository
  returns and the scanner was invoked once for every image record of every tag that is
  not skipped, in listing order, each time on \<open>full_repo@digest\<close> (\<open>tag_targets\<close>).
  Without \<open>--all-tag\<close> the scanner is invoked exactly once, on \<open>full_repo:latest\<close>.
\<close>

theorem docker_scan_targets:
  "(findings_normalizable env full_repo \<longrightarrow> tags_served env full_repo 1 pages
      \<longrightarrow> list_all wf_tag (concat pages)
      \<longrightarrow> (\<exists>df' st'. main_repo_body env True full_repo df st = Some (Return df', st')
             \<and> scanner_calls (trace st') = scanner_calls (trace st)
                  @ map docker_cmd (concat (map (tag_targets env full_repo) (concat pages)))))
   \<and> (\<exists>res st'. main_repo_body env False full_repo df st = Some (res, st')
         \<and> scanner_calls (trace st') = scanner_calls (trace st) @ [docker_cmd (full_repo @ '':latest'')])"
proof (intro conjI impI)
  let ?st0 = "print (CHR 0x0A # ''[+] Scanning repository: '' @ full_repo) st"
  assume "findings_normalizable env full_repo" "tags_served env full_repo 1 pages"
    "list_all wf_tag (concat pages)"
  from get_container_tags_served [OF this, of df ?st0]
  show "\<exists>df' st'. main_repo_body env True full_repo df st = Some (Return df', st')
             \<and> scanner_calls (trace st') = scanner_calls (trace st)
                  @ map docker_cmd (concat (map (tag_targets env full_repo) (concat pages)))"
    by (simp add: main_repo_body_def print_def)
next
  from main_repo_body_latest [of env full_repo df st]
  show "\<exists>res st'. main_repo_body env False full_repo df st = Some (res, st')
         \<and> scanner_calls (trace st') = scanner_calls (trace st) @ [docker_cmd (full_repo @ '':latest'')]"
    by blast
qed

text \<open>
  The theorem in scenario B of the spec: with the tags \<open>v1\<close> and \<open>v1.sig\<close>, one digest
  each, there is exactly one invocation, for the digest of \<open>v1\<close>; and so it is for the
  whole of \<open>main\<close> run with \<open>--docker-repo repos.txt --all-tag\<close>.
\<close>

theorem docker_scan_targets_witness:
  "(\<exists>df' st'. main_repo_body scenario_B_env True ''alice/app'' [] st0 = Some (Return df', st')
       \<and> scanner_calls (trace st') = [docker_cmd ''alice/app@sha256:aaa''])
   \<and> (\<exists>res st'. main_repo_body scenario_B_env False ''alice/app'' [] st0 = Some (res, st')
       \<and> scanner_calls (trace st') = [docker_cmd ''alice/app:latest''])
   \<and> (\<exists>st'. main scenario_B_env scenario_B_args scenario_B_state = Some (Return (), st')
       \<and> scanner_calls (trace st') = [docker_cmd ''alice/app@sha256:aaa'']
       \<and> fs st' ''image.txt'' = Some (''alice/app'' @ [CHR 0x0A])
       \<and> sheets st' ''output.xlsx'' = Some [row_B])"
proof -
  have w: "list_all wf_tag (concat [[tag_v1, tag_v1_sig]])"
    using scenario_B_tags(1) by simp
  from docker_scan_targets [of scenario_B_env "''alice/app''" "[[tag_v1, tag_v1_sig]]" "[]" st0]
       scenario_B_normalizable scenario_B_served w
  have "(\<exists>df' st'. main_repo_body scenario_B_env True ''alice/app'' [] st0 = Some (Return df', st')
       \<and> scanner_calls (trace st') = [docker_cmd ''alice/app@sha256:aaa''])
   \<and> (\<exists>res st'. main_repo_body scenario_B_env False ''alice/app'' [] st0 = Some (res, st')
       \<and> scanner_calls (trace st') = [docker_cmd ''alice/app:latest''])"
    by (simp add: scenario_B_tags st0_def)
  with scenario_B_main show ?thesis by blast
qed

text \<open>
  Claim C6. When \<open>cred.conf\<close> is there and loads to a mapping whose \<open>docker\<close> entry is a
  list starting with a string without a colon, \<open>read_credentials\<close> does not return: it ends
  the process with \<open>sys.exit(1)\<close> after its message (or, when the \<open>github\<close> entry is
  malformed, with the exception that entry raises first). \<open>main\<close> ends the same way, for
  every command line, and no event was added to the trace: no request was issued.
\<close>

theorem docker_line_without_colon_is_fatal:
  assumes "fs st ''cred.conf'' = Some f"
      and "yaml_safe_load env f = Inr (JObj kvs)"
      and "map_of kvs ''docker'' = Some (JArr (JStr line # others))"
      and "CHR '':'' \<notin> set line"
  shows "read_credentials env st =
           (case conf_first (JObj kvs) ''github'' of
              Inl e \<Rightarrow> (Raise e, st)
            | Inr t \<Rightarrow> (Exit 1, print ''Error: Docker credentials must be in format username:password'' st))
       \<and> main env a st =
           Some (case conf_first (JObj kvs) ''github'' of
                   Inl e \<Rightarrow> (Raise e, st)
                 | Inr t \<Rightarrow> (Exit 1, print ''Error: Docker credentials must be in format username:password'' st))
       \<and> (\<forall>v. fst (read_credentials env st) \<noteq> Return v)
       \<and> trace (snd (read_credentials env st)) = trace st"
  using read_credentials_no_colon [OF assms]
  by (auto simp: main_def obind_def print_def split: sum.splits)

text \<open>The theorem on the credential file \<open>docker: [alicesecret]\<close>.\<close>

theorem docker_line_without_colon_is_fatal_witness:
  "read_credentials no_colon_env no_colon_state
     = (Exit 1, no_colon_state\<lparr>out := [''Error: Docker credentials must be in format username:password'']\<rparr>)
   \<and> main no_colon_env scenario_B_args no_colon_state
     = Some (Exit 1, no_colon_state\<lparr>out := [''Error: Docker credentials must be in format username:password'']\<rparr>)
   \<and> trace (no_colon_state\<lparr>out := [''Error: Docker credentials must be in format username:password'']\<rparr>) = []"
proof -
  have h1: "fs no_colon_state ''cred.conf'' = Some ''docker: [alicesecret]''"
    by (simp add: no_colon_state_def st0_def)
  have h2: "yaml_safe_load no_colon_env ''docker: [alicesecret]'' = Inr (JObj [(''docker'', JArr [JStr ''alicesecret''])])"
    by (simp add: no_colon_env_def quiet_env_def)
  have h3: "map_of [(''docker'', JArr [JStr ''alicesecret''])] ''docker'' = Some (JArr (JStr ''alicesecret'' # []))"
    by simp
  have h4: "CHR '':'' \<notin> set ''alicesecret''" by simp
  from docker_line_without_colon_is_fatal [OF h1 h2 h3 h4, of scenario_B_args]
  show ?thesis
    by (simp add: conf_first_def ebind_def print_def no_colon_state_def st0_def)
qed

text \<open>
  Claim C7, as the code has it. For a Docker finding object without \<open>ExtraData\<close> (absent or
  null) whose \<open>SourceMetadata\<close>, \<open>Data\<close> and \<open>Docker\<close> entries, where present, are
  objects (\<open>dm\<close> being the Docker metadata), \<open>parse_docker_finding\<close> returns a record and
  raises nothing; its \<open>rotation_guide\<close> and \<open>version\<close> are the empty string; every other
  field holds the finding's value or, when the value is absent, the empty string
  (\<open>False\<close> for \<open>verified\<close>), except \<open>image\<close>, whose default is the image reference
  the caller passes.
\<close>

theorem parse_docker_finding_no_extra_data:
  assumes "map_of kvs ''ExtraData'' = None \<or> map_of kvs ''ExtraData'' = Some JNull"
      and "docker_meta_of (JObj kvs) = Inr (JObj dm)"
  shows "\<exists>r. parse_docker_finding ref (JObj kvs) = Inr r
           \<and> map_of r ''rotation_guide'' = Some (JStr [])
           \<and> map_of r ''version'' = Some (JStr [])
           \<and> map_of r ''image'' = Some (dict_get dm ''image'' (JStr ref))
           \<and> map_of r ''tag'' = Some (dict_get dm ''tag'' (JStr []))
           \<and> map_of r ''layer'' = Some (dict_get dm ''layer'' (JStr []))
           \<and> map_of r ''file'' = Some (dict_get dm ''file'' (JStr []))
           \<and> map_of r ''detector_name'' = Some (dict_get kvs ''DetectorName'' (JStr []))
           \<and> map_of r ''detector_type'' = Some (dict_get kvs ''DetectorType'' (JStr []))
           \<and> map_of r ''detector_desc'' = Some (dict_get kvs ''DetectorDescription'' (JStr []))
           \<and> map_of r ''raw'' = Some (dict_get kvs ''Raw'' (JStr []))
           \<and> map_of r ''redacted'' = Some (dict_get kvs ''Redacted'' (JStr []))
           \<and> map_of r ''verified'' = Some (dict_get kvs ''Verified'' (JBool False))"
proof -
  from assms(1) have "\<not> truthy (dict_get kvs ''ExtraData'' JNull)"
    by (auto simp: dict_get_def)
  from parse_docker_finding_row [OF assms(2) this, of ref] show ?thesis
    by simp
qed

text \<open>The theorem at a finding with a detector name, a Docker tag and a null
  \<open>ExtraData\<close>.\<close>

theorem parse_docker_finding_no_extra_data_witness:
  "\<exists>r. parse_docker_finding ''alice/app''
          (JObj [(''DetectorName'', JStr ''AWS''),
                 (''SourceMetadata'', JObj [(''Data'', JObj [(''Docker'', JObj [(''tag'', JStr ''v1'')])])]),
                 (''ExtraData'', JNull)]) = Inr r
       \<and> map_of r ''rotation_guide'' = Some (JStr [])
       \<and> map_of r ''version'' = Some (JStr [])
       \<and> map_of r ''image'' = Some (JStr ''alice/app'')
       \<and> map_of r ''tag'' = Some (JStr ''v1'')
       \<and> map_of r ''detector_name'' = Some (JStr ''AWS'')
       \<and> map_of r ''verified'' = Some (JBool False)"
proof -
  let ?kvs = "[(''DetectorName'', JStr ''AWS''),
               (''SourceMetadata'', JObj [(''Data'', JObj [(''Docker'', JObj [(''tag'', JStr ''v1'')])])]),
               (''ExtraData'', JNull)]"
  have h1: "map_of ?kvs ''ExtraData'' = None \<or> map_of ?kvs ''ExtraData'' = Some JNull"
    by simp
  have h2: "docker_meta_of (JObj ?kvs) = Inr (JObj [(''tag'', JStr ''v1'')])"
    by (simp add: docker_meta_of_def ebind_def dict_get_def)
  from parse_docker_finding_no_extra_data [OF h1 h2, of "''alice/app''"]
  show ?thesis by (auto simp: dict_get_def)
qed

text \<open>
  The claim as the spec words it fails twice. A finding with no field at all is
  normalized with the caller's image reference under \<open>image\<close>, which is neither the empty
  string nor \<open>False\<close>; and a finding whose \<open>SourceMetadata\<close> is null, with no
  \<open>ExtraData\<close>, makes the normalizer raise \<open>AttributeError\<close> instead of returning a record.
\<close>

theorem parse_docker_finding_defaults_counterexample:
  "parse_docker_finding ''alice/app'' (JObj []) =
     Inr [(''image'', JStr ''alice/app''), (''tag'', JStr []), (''layer'', JStr []), (''file'', JStr []),
          (''detector_name'', JStr []), (''detector_type'', JStr []), (''detector_desc'', JStr []),
          (''raw'', JStr []), (''redacted'', JStr []), (''verified'', JBool False),
          (''rotation_guide'', JStr []), (''version'', JStr [])]
   \<and> JStr ''alice/app'' \<noteq> JStr [] \<and> JStr ''alice/app'' \<noteq> JBool False
   \<and> parse_docker_finding ''alice/app'' (JObj [(''SourceMetadata'', JNull)]) = Inl AttributeError"
  by (simp add: parse_docker_finding_def docker_meta_of_def ebind_def dict_get_def)

text \<open>
  Claim C8. \<open>save_to_excel_docker\<close> given the empty list returns normally after printing
  its message, and the state is otherwise unchanged: no spreadsheet and no file is written.
  \<open>save_to_excel_github\<close> does the same when its results file holds no line that decodes,
  which is when its list of rows is empty.
\<close>

theorem export_of_nothing:
  "save_to_excel_docker [] output_file st
     = (Return (), st\<lparr>out := out st @ [''No Docker findings, Excel not created.'']\<rparr>)
   \<and> (fs st results_file = Some content
        \<longrightarrow> (\<forall>l \<in> set (stripped_lines content). json_loads env l = None)
        \<longrightarrow> save_to_excel_github env results_file output_file st
              = (Return (), st\<lparr>out := out st @ [''No valid GitHub JSON found, Excel not created.'']\<rparr>))"
proof -
  have rows: "(\<forall>l \<in> set ls. json_loads env l = None) \<Longrightarrow> github_rows env ls = Inr []" for ls
    by (induction ls) auto
  show ?thesis
    by (auto simp: save_to_excel_docker_def save_to_excel_github_def print_def read_lines_def rows)
qed

text \<open>The theorem in a world where no line decodes, on a results file with one line.\<close>

theorem export_of_nothing_witness:
  "save_to_excel_docker [] ''output.xlsx'' st0
     = (Return (), st0\<lparr>out := [''No Docker findings, Excel not created.'']\<rparr>)
   \<and> save_to_excel_github quiet_env ''results.txt'' ''output.xlsx'' (st0\<lparr>fs := [''results.txt'' \<mapsto> ''scanned'']\<rparr>)
     = (Return (), st0\<lparr>fs := [''results.txt'' \<mapsto> ''scanned''],
                        out := [''No valid GitHub JSON found, Excel not created.'']\<rparr>)
   \<and> sheets (st0\<lparr>fs := [''results.txt'' \<mapsto> ''scanned''],
                  out := [''No valid GitHub JSON found, Excel not created.'']\<rparr>) ''output.xlsx'' = None"
  using export_of_nothing [of "''output.xlsx''" st0]
        export_of_nothing [of "''output.xlsx''" "st0\<lparr>fs := [''results.txt'' \<mapsto> ''scanned'']\<rparr>"
                               "''results.txt''" "''scanned''" quiet_env]
  by (simp add: st0_def quiet_env_def)

text \<open>
  Claim C9. In the self-scan, when the listing of the user's repositories returns two
  repository URLs and the listing of the organizations returns one name, and the scanner
  runs, \<open>scan_my_repos_and_orgs\<close> returns; \<open>personal.txt\<close> then holds the two URLs in
  sorted order, one per line, \<open>org.txt\<close> holds the organization's name, and the scanner
  was invoked exactly three times: for the organization, then for each repository.
\<close>

theorem self_scan_scenario:
  assumes "get_user_repos env token
             (print ''=== STEP 1: Fetching my repositories and organizations ==='' st)
           = Some (Return [r1, r2], st1)"
      and "get_orgs env token st1 = Some (Return [JStr org], st2)"
      and "\<forall>h cmd. \<exists>so se. subprocess_run env h cmd = Inr (so, se)"
  shows "\<exists>all_output st'.
           scan_my_repos_and_orgs env token st = Some (Return all_output, st')
         \<and> fs st' ''personal.txt'' = Some (join [CHR 0x0A] (sort [r1, r2]))
         \<and> fs st' ''org.txt'' = Some org
         \<and> length all_output = 3
         \<and> scanner_calls (trace st') = scanner_calls (trace st)
              @ [[''trufflehog'', ''github'', ''--org='' @ org, ''--token='' @ token, ''--json''],
                 [''trufflehog'', ''github'', ''--repo='' @ r1, ''--token='' @ token, ''--json''],
                 [''trufflehog'', ''github'', ''--repo='' @ r2, ''--token='' @ token, ''--json'']]"
proof -
  let ?st0 = "print ''=== STEP 1: Fetching my repositories and organizations ==='' st"
  let ?st3 = "write_file ''personal.txt'' (join [CHR 0x0A] (sort [r1, r2])) st2"
  let ?st4 = "write_file ''org.txt'' org ?st3"
  from get_user_repos_loop_calls assms(1) have c1: "scanner_calls (trace st1) = scanner_calls (trace st)"
    unfolding get_user_repos_def by (fastforce simp: print_def)
  from get_orgs_loop_calls assms(2) have c2: "scanner_calls (trace st2) = scanner_calls (trace st1)"
    unfolding get_orgs_def by fastforce
  from scan_loop_runs [OF assms(3), of "map (org_cmd env token) [JStr org]" "[]" ?st4]
  obtain outs1 st5 where
    o: "scan_loop env (map (org_cmd env token) [JStr org]) [] ?st4 = (Return outs1, st5)"
    and on: "length outs1 = 1"
    and oc: "scanner_calls (trace st5) = scanner_calls (trace ?st4) @ [snd (org_cmd env token (JStr org))]"
    and ofs: "fs st5 = fs ?st4"
    by auto
  from scan_loop_runs [OF assms(3), of "map (repo_cmd_token token) [r1, r2]" outs1 st5]
  obtain outs2 st6 where
    p: "scan_loop env (map (repo_cmd_token token) [r1, r2]) outs1 st5 = (Return (outs1 @ outs2), st6)"
    and pn: "length outs2 = 2"
    and pc: "scanner_calls (trace st6) = scanner_calls (trace st5)
               @ [snd (repo_cmd_token token r1), snd (repo_cmd_token token r2)]"
    and pfs: "fs st6 = fs st5"
    by auto
  have s: "as_strings [JStr org] = Inr [org]" by (simp add: as_strings_def)
  have so: "sort [org] = [org]" by simp
  have "scan_my_repos_and_orgs env token st = Some (Return (outs1 @ outs2), st6)"
    unfolding scan_my_repos_and_orgs_def
    using assms(1,2) o p so by (simp add: obind_def s Let_def del: scan_loop.simps sort_key_simps)
  moreover have "fs st6 ''personal.txt'' = Some (join [CHR 0x0A] (sort [r1, r2]))"
    unfolding pfs ofs by (simp add: write_file_def)
  moreover have "fs st6 ''org.txt'' = Some org"
    unfolding pfs ofs by (simp add: write_file_def)
  moreover have "length (outs1 @ outs2) = 3" using on pn by simp
  moreover have "scanner_calls (trace st6) = scanner_calls (trace st)
              @ [[''trufflehog'', ''github'', ''--org='' @ org, ''--token='' @ token, ''--json''],
                 [''trufflehog'', ''github'', ''--repo='' @ r1, ''--token='' @ token, ''--json''],
                 [''trufflehog'', ''github'', ''--repo='' @ r2, ''--token='' @ token, ''--json'']]"
    unfolding pc oc using c1 c2
    by (simp add: write_file_def org_cmd_def repo_cmd_token_def fmt_def)
  ultimately show ?thesis by blast
qed

text \<open>The theorem in scenario A of the spec, where the server lists \<open>alice/zeta\<close> before
  \<open>alice/app\<close>: the file has them sorted, the scans follow the listing; and the same for
  the whole of \<open>main\<close> run with \<open>--git-me\<close> on the credential file \<open>github: [tok123]\<close>.\<close>

theorem self_scan_scenario_witness:
  "(\<exists>all_output st'.
     scan_my_repos_and_orgs scenario_A_env ''tok123'' st0 = Some (Return all_output, st')
   \<and> fs st' ''personal.txt'' = Some (''https://github.com/alice/app'' @ [CHR 0x0A] @ ''https://github.com/alice/zeta'')
   \<and> fs st' ''org.txt'' = Some ''acme''
   \<and> length all_output = 3
   \<and> scanner_calls (trace st')
        = [[''trufflehog'', ''github'', ''--org=acme'', ''--token=tok123'', ''--json''],
           [''trufflehog'', ''github'', ''--repo=https://github.com/alice/zeta'', ''--token=tok123'', ''--json''],
           [''trufflehog'', ''github'', ''--repo=https://github.com/alice/app'', ''--token=tok123'', ''--json'']])
   \<and> (\<exists>st'. main scenario_A_env scenario_A_args scenario_A_state = Some (Return (), st')
     \<and> fs st' ''personal.txt'' = Some (''https://github.com/alice/app'' @ [CHR 0x0A] @ ''https://github.com/alice/zeta'')
     \<and> fs st' ''org.txt'' = Some ''acme''
     \<and> fs st' ''results.txt'' = Some (''scanned'' @ [CHR 0x0A] @ ''scanned'' @ [CHR 0x0A] @ ''scanned'')
     \<and> sheets st' ''output.xlsx'' = None
     \<and> scanner_calls (trace st')
        = [[''trufflehog'', ''github'', ''--org=acme'', ''--token=tok123'', ''--json''],
           [''trufflehog'', ''github'', ''--repo=https://github.com/alice/zeta'', ''--token=tok123'', ''--json''],
           [''trufflehog'', ''github'', ''--repo=https://github.com/alice/app'', ''--token=tok123'', ''--json'']])"
proof -
  have h3: "\<forall>h cmd. \<exists>so se. subprocess_run scenario_A_env h cmd = Inr (so, se)"
    by (simp add: scenario_A_env_def quiet_env_def)
  from self_scan_scenario [OF scenario_A_user_repos scenario_A_orgs h3, of st0]
  have "\<exists>all_output st'.
     scan_my_repos_and_orgs scenario_A_env ''tok123'' st0 = Some (Return all_output, st')
   \<and> fs st' ''personal.txt'' = Some (''https://github.com/alice/app'' @ [CHR 0x0A] @ ''https://github.com/alice/zeta'')
   \<and> fs st' ''org.txt'' = Some ''acme''
   \<and> length all_output = 3
   \<and> scanner_calls (trace st')
        = [[''trufflehog'', ''github'', ''--org=acme'', ''--token=tok123'', ''--json''],
           [''trufflehog'', ''github'', ''--repo=https://github.com/alice/zeta'', ''--token=tok123'', ''--json''],
           [''trufflehog'', ''github'', ''--repo=https://github.com/alice/app'', ''--token=tok123'', ''--json'']]"
    unfolding scenario_A_sorted by (simp add: st0_def)
  with scenario_A_main show ?thesis by blast
qed

text \<open>
  Claim C10. In both scanning paths of \<open>main\<close> the scanner is run on a qualified
  reference (\<open>full_repo@digest\<close> in the loop over a tag's images, \<open>full_repo:latest\<close>
  otherwise), while the normalizer is given \<open>full_repo\<close>: every finding of the scan is
  normalized to a row, and the row of a finding whose Docker metadata has no \<open>image\<close>
  entry carries \<open>full_repo\<close> under \<open>image\<close>, which is not the reference scanned.
\<close>

theorem docker_row_image_is_repository:
  "(main_image_body env full_repo img df st = (Return df', st') \<longrightarrow>
      (\<exists>rows. df' = df @ rows
         \<and> scanner_calls (trace st') = scanner_calls (trace st) @ [docker_cmd (full_repo @ ''@'' @ fmt env (image_digest img))]
         \<and> full_repo \<noteq> full_repo @ ''@'' @ fmt env (image_digest img)
         \<and> list_all2 (\<lambda>f r. parse_docker_finding full_repo f = Inr r
               \<and> (docker_image_field f = None \<longrightarrow> map_of r ''image'' = Some (JStr full_repo)))
             (fst (scan_with_trufflehog env (full_repo @ ''@'' @ fmt env (image_digest img)) st)) rows))
   \<and> (main_repo_body env False full_repo df st = Some (Return df', st') \<longrightarrow>
      (\<exists>rows. df' = df @ rows
         \<and> scanner_calls (trace st') = scanner_calls (trace st) @ [docker_cmd (full_repo @ '':latest'')]
         \<and> full_repo \<noteq> full_repo @ '':latest''
         \<and> list_all2 (\<lambda>f r. parse_docker_finding full_repo f = Inr r
               \<and> (docker_image_field f = None \<longrightarrow> map_of r ''image'' = Some (JStr full_repo)))
             (fst (scan_with_trufflehog env (full_repo @ '':latest'')
                    (print (CHR 0x0A # ''[+] Scanning repository: '' @ full_repo) st))) rows))"
proof (intro conjI impI)
  assume a: "main_image_body env full_repo img df st = (Return df', st')"
  from main_image_body_Return [OF a] obtain digest rows where
    d: "py_subscript img ''digest'' = Inr digest"
    and e: "emap (parse_docker_finding full_repo)
                (fst (scan_with_trufflehog env (full_repo @ ''@'' @ fmt env digest) st)) = Inr rows"
    and r: "df' = df @ rows"
    and t: "trace st' = trace st @ [Subprocess (docker_cmd (full_repo @ ''@'' @ fmt env digest)), Sleep]"
    by blast
  from d have dg: "image_digest img = digest" by (rule py_subscript_digest)
  from t have "scanner_calls (trace st') = scanner_calls (trace st) @ [docker_cmd (full_repo @ ''@'' @ fmt env digest)]"
    by (simp add: scanner_calls_append)
  with r rows_image_default [OF e] dg
  show "\<exists>rows. df' = df @ rows
         \<and> scanner_calls (trace st') = scanner_calls (trace st) @ [docker_cmd (full_repo @ ''@'' @ fmt env (image_digest img))]
         \<and> full_repo \<noteq> full_repo @ ''@'' @ fmt env (image_digest img)
         \<and> list_all2 (\<lambda>f r. parse_docker_finding full_repo f = Inr r
               \<and> (docker_image_field f = None \<longrightarrow> map_of r ''image'' = Some (JStr full_repo)))
             (fst (scan_with_trufflehog env (full_repo @ ''@'' @ fmt env (image_digest img)) st)) rows"
    by auto
next
  let ?st0 = "print (CHR 0x0A # ''[+] Scanning repository: '' @ full_repo) st"
  assume a: "main_repo_body env False full_repo df st = Some (Return df', st')"
  then obtain rows where
    e: "emap (parse_docker_finding full_repo) (fst (scan_with_trufflehog env (full_repo @ '':latest'') ?st0)) = Inr rows"
    and r: "df' = df @ rows"
    and s: "st' = snd (scan_with_trufflehog env (full_repo @ '':latest'') ?st0)"
    by (auto simp: main_repo_body_def Let_def split: prod.splits sum.splits)
  from s have "trace st' = trace st @ [Subprocess (docker_cmd (full_repo @ '':latest''))]"
    using scan_with_trufflehog_trace [of env "full_repo @ '':latest''" ?st0
            "fst (scan_with_trufflehog env (full_repo @ '':latest'') ?st0)" st']
    by (simp add: print_def)
  then have "scanner_calls (trace st') = scanner_calls (trace st) @ [docker_cmd (full_repo @ '':latest'')]"
    by (simp add: scanner_calls_append)
  with r rows_image_default [OF e]
  show "\<exists>rows. df' = df @ rows
         \<and> scanner_calls (trace st') = scanner_calls (trace st) @ [docker_cmd (full_repo @ '':latest'')]
         \<and> full_repo \<noteq> full_repo @ '':latest''
         \<and> list_all2 (\<lambda>f r. parse_docker_finding full_repo f = Inr r
               \<and> (docker_image_field f = None \<longrightarrow> map_of r ''image'' = Some (JStr full_repo)))
             (fst (scan_with_trufflehog env (full_repo @ '':latest'') ?st0)) rows"
    by auto
qed

text \<open>The theorem in scenario B, on the image of \<open>v1\<close> and on \<open>alice/app:latest\<close>: the
  finding reported has no \<open>image\<close> entry, and its row names \<open>alice/app\<close>.\<close>

theorem docker_row_image_is_repository_witness:
  "main_image_body scenario_B_env ''alice/app'' (JObj [(''digest'', JStr ''sha256:aaa'')]) [] st0
     = (Return [row_B], st0\<lparr>trace := [Subprocess (docker_cmd ''alice/app@sha256:aaa''), Sleep]\<rparr>)
   \<and> main_repo_body scenario_B_env False ''alice/app'' [] st0
     = Some (Return [row_B], st0\<lparr>out := [CHR 0x0A # ''[+] Scanning repository: alice/app''],
                                   trace := [Subprocess (docker_cmd ''alice/app:latest'')]\<rparr>)
   \<and> docker_image_field finding_B = None
   \<and> map_of row_B ''image'' = Some (JStr ''alice/app'')"
proof -
  let ?img = "JObj [(''digest'', JStr ''sha256:aaa'')]"
  let ?st1 = "st0\<lparr>trace := [Subprocess (docker_cmd ''alice/app@sha256:aaa''), Sleep]\<rparr>"
  let ?st2 = "st0\<lparr>out := [CHR 0x0A # ''[+] Scanning repository: alice/app''],
                   trace := [Subprocess (docker_cmd ''alice/app:latest'')]\<rparr>"
  have h1: "main_image_body scenario_B_env ''alice/app'' ?img [] st0 = (Return [row_B], ?st1)"
    by (simp add: main_image_body_def scan_B_digest parse_finding_B fmt_def log_event_def st0_def)
  have h2: "main_repo_body scenario_B_env False ''alice/app'' [] st0 = Some (Return [row_B], ?st2)"
    by (simp add: main_repo_body_def scan_B_latest parse_finding_B log_event_def print_def st0_def)
  have h3: "docker_image_field finding_B = None"
    by (simp add: docker_image_field_def docker_meta_of_def finding_B_def ebind_def dict_get_def)
  from docker_row_image_is_repository [of scenario_B_env "''alice/app''" ?img "[]" st0 "[row_B]" ?st1]
       h1 h3
  have "map_of row_B ''image'' = Some (JStr ''alice/app'')"
    by (auto simp: scan_B_digest image_digest_def dict_get_def fmt_def list_all2_Cons1)
  with h1 h2 h3 show ?thesis by simp
qed

end
